theory Spec2Isabelle
  imports Complex_Main
begin

section \<open>JavaScript values as the three Lambda handlers see them\<close>

text \<open>
  The handlers are untyped at their inputs: \<^verbatim>\<open>JSON.parse\<close> returns \<^verbatim>\<open>any\<close>, and the
  code reads properties, applies \<^verbatim>\<open>||\<close>, \<^verbatim>\<open>parseFloat\<close>, \<^verbatim>\<open>toString\<close> and template
  literals to whatever it finds. The model therefore carries JavaScript values.

  A JavaScript number is an IEEE double. A finite one is written by the decimal that
  \<^verbatim>\<open>Number::toString\<close> prints for it, the shortest that reads back as the same double:
  \<open>Dec m e\<close> stands for the number printed as \<open>m * 10^e\<close>. The handlers do no arithmetic;
  they print numbers, test them for zero and compare them with 10000, and each of these
  can be read off the printed decimal. Where a number is made from text (\<^verbatim>\<open>JSON.parse\<close>,
  \<^verbatim>\<open>parseFloat\<close> of a string) or rounded (\<^verbatim>\<open>toFixed\<close>), the binary rounding matters, and
  the operation is a parameter of the model, not a definition. The sign of zero is not
  modelled. Strings are lists of characters.
\<close>

datatype jsnum = NaN | Infinity | NegInfinity | Dec int int

datatype jsval =
    Undefined
  | Null
  | Bool bool
  | Number jsnum
  | String string
  | Array "jsval list"
  | Object "(string \<times> jsval) list"

text \<open>
  What a handler can throw: the three JavaScript errors this code can run into, and the
  two ways a call to an AWS service fails (the request is rejected as invalid, or the
  service cannot be reached).
\<close>

datatype service = DynamoDB | S3 | SQS | EventBridge | SNS

datatype error =
    SyntaxError
  | TypeError
  | RangeError
  | ValidationException
  | ServiceUnavailable service

text \<open>The rational value of a finite number.\<close>

definition num_val :: "int \<Rightarrow> int \<Rightarrow> rat" where
  "num_val m e = (if 0 \<le> e then of_int m * 10 ^ nat e else of_int m / 10 ^ nat (- e))"

text \<open>\<^verbatim>\<open>x > b\<close> for a number \<open>x\<close> and a finite literal \<open>b\<close>; every comparison with NaN is false.\<close>

fun greater_than :: "jsnum \<Rightarrow> rat \<Rightarrow> bool" where
  "greater_than NaN b = False"
| "greater_than Infinity b = True"
| "greater_than NegInfinity b = False"
| "greater_than (Dec m e) b = (b < num_val m e)"

text \<open>Truthiness, as \<^verbatim>\<open>||\<close> and \<^verbatim>\<open>!\<close> test it.\<close>

fun truthy :: "jsval \<Rightarrow> bool" where
  "truthy Undefined = False"
| "truthy Null = False"
| "truthy (Bool b) = b"
| "truthy (Number NaN) = False"
| "truthy (Number (Dec m e)) = (m \<noteq> 0)"
| "truthy (Number n) = True"
| "truthy (String s) = (s \<noteq> [])"
| "truthy (Array xs) = True"
| "truthy (Object fs) = True"

text \<open>\<^verbatim>\<open>a || b\<close>.\<close>

definition or_else :: "jsval \<Rightarrow> jsval \<Rightarrow> jsval" where
  "or_else a b = (if truthy a then a else b)"

text \<open>
  \<^verbatim>\<open>v.name\<close>: a TypeError on \<^verbatim>\<open>undefined\<close> and \<^verbatim>\<open>null\<close>, the own property of an object,
  and \<^verbatim>\<open>undefined\<close> on every other value (none of the names this program reads is a
  property of a string, number, boolean or array).
\<close>

fun get_prop :: "jsval \<Rightarrow> string \<Rightarrow> error + jsval" where
  "get_prop Undefined name = Inl TypeError"
| "get_prop Null name = Inl TypeError"
| "get_prop (Object fs) name = Inr (case map_of fs name of None \<Rightarrow> Undefined | Some v \<Rightarrow> v)"
| "get_prop v name = Inr Undefined"

subsection \<open>Number to string\<close>

definition digit_char :: "nat \<Rightarrow> char" where
  "digit_char d = ''0123456789'' ! d"

fun dec_digits :: "nat \<Rightarrow> string" where
  "dec_digits n = (if n < 10 then [digit_char n] else dec_digits (n div 10) @ [digit_char (n mod 10)])"

declare dec_digits.simps [simp del]

text \<open>
  \<^verbatim>\<open>Number::toString\<close> (ECMA-262, radix 10): with \<open>s\<close> the significant digits (\<open>k\<close> of
  them, no trailing zero) and \<open>x = 0.s * 10^n\<close>, the notation is plain for
  \<open>-6 < n \<le> 21\<close> and exponential otherwise.
\<close>

definition num_to_string :: "jsnum \<Rightarrow> string" where
  "num_to_string x =
     (case x of
        NaN \<Rightarrow> ''NaN''
      | Infinity \<Rightarrow> ''Infinity''
      | NegInfinity \<Rightarrow> ''-Infinity''
      | Dec m e \<Rightarrow>
          if m = 0 then ''0''
          else
            let all_digits = dec_digits (nat \<bar>m\<bar>);
                s = rev (dropWhile (\<lambda>c. c = CHR ''0'') (rev all_digits));
                k = int (length s);
                n = int (length all_digits) + e;
                sign = (if m < 0 then ''-'' else '''')
            in sign @
               (if k \<le> n \<and> n \<le> 21 then s @ replicate (nat (n - k)) CHR ''0''
                else if 0 < n \<and> n \<le> 21 then take (nat n) s @ ''.'' @ drop (nat n) s
                else if - 6 < n \<and> n \<le> 0 then ''0.'' @ replicate (nat (- n)) CHR ''0'' @ s
                else
                  let ex = (if 0 \<le> n - 1 then ''+'' else ''-'') @ dec_digits (nat \<bar>n - 1\<bar>)
                  in if k = 1 then s @ ''e'' @ ex
                     else take 1 s @ ''.'' @ drop 1 s @ ''e'' @ ex))"

text \<open>\<^verbatim>\<open>String(v)\<close>, which a template literal applies to an interpolated value.\<close>

fun to_string :: "jsval \<Rightarrow> string"
  and join_elems :: "jsval list \<Rightarrow> string" where
  "to_string Undefined = ''undefined''"
| "to_string Null = ''null''"
| "to_string (Bool b) = (if b then ''true'' else ''false'')"
| "to_string (Number n) = num_to_string n"
| "to_string (String s) = s"
| "to_string (Array xs) = join_elems xs"
| "to_string (Object fs) = ''[object Object]''"
| "join_elems [] = ''''"
| "join_elems [x] = (case x of Undefined \<Rightarrow> '''' | Null \<Rightarrow> '''' | _ \<Rightarrow> to_string x)"
| "join_elems (x # y # ys) =
     (case x of Undefined \<Rightarrow> '''' | Null \<Rightarrow> '''' | _ \<Rightarrow> to_string x) @ '','' @ join_elems (y # ys)"

text \<open>\<^verbatim>\<open>v.toString()\<close>: the method call, a TypeError on \<^verbatim>\<open>undefined\<close> and \<^verbatim>\<open>null\<close>.\<close>

definition toString_method :: "jsval \<Rightarrow> error + string" where
  "toString_method v =
     (case v of Undefined \<Rightarrow> Inl TypeError | Null \<Rightarrow> Inl TypeError | _ \<Rightarrow> Inr (to_string v))"

subsection \<open>Decimal strings\<close>

text \<open>
  The decimal notation of a number, read exactly. This is how DynamoDB reads the string
  of a number attribute (its numbers are decimal), and it is the grammar of the numeric
  prefix that \<^verbatim>\<open>parseFloat\<close> looks for.
\<close>

definition is_digit :: "char \<Rightarrow> bool" where
  "is_digit c = (c \<in> set ''0123456789'')"

definition digit_val :: "char \<Rightarrow> nat" where
  "digit_val c = of_char c - 48"

definition digits_val :: "string \<Rightarrow> nat" where
  "digits_val ds = foldl (\<lambda>a c. 10 * a + digit_val c) 0 ds"



definition scan_sign :: "string \<Rightarrow> bool \<times> string" where
  "scan_sign s =
     (case s of
        [] \<Rightarrow> (False, [])
      | c # r \<Rightarrow> if c = CHR ''-'' then (True, r) else if c = CHR ''+'' then (False, r) else (False, s))"

text \<open>An exponent part \<open>e[+-]ddd\<close>; without a digit the \<open>e\<close> is not part of the number.\<close>

definition scan_exponent :: "string \<Rightarrow> int \<times> string" where
  "scan_exponent s =
     (case s of
        [] \<Rightarrow> (0, [])
      | c # r \<Rightarrow>
          if c = CHR ''e'' \<or> c = CHR ''E'' then
            (let (neg, r') = scan_sign r; ds = takeWhile is_digit r'
             in if ds = [] then (0, s)
                else ((if neg then - int (digits_val ds) else int (digits_val ds)),
                      dropWhile is_digit r'))
          else (0, s))"

text \<open>
  The longest prefix of \<open>s\<close> that is a \<^verbatim>\<open>StrDecimalLiteral\<close> (ECMA-262), with its value and
  the rest of the string; \<open>None\<close> when no prefix is one.
\<close>

definition scan_decimal :: "string \<Rightarrow> (jsnum \<times> string) option" where
  "scan_decimal s =
     (let (neg, s1) = scan_sign s
      in if take 8 s1 = ''Infinity'' then Some (if neg then NegInfinity else Infinity, drop 8 s1)
         else
           let ip = takeWhile is_digit s1;
               r1 = dropWhile is_digit s1;
               (fp, r2) = (case r1 of
                             [] \<Rightarrow> ([], [])
                           | c # r \<Rightarrow> if c = CHR ''.'' then (takeWhile is_digit r, dropWhile is_digit r)
                                      else ([], r1))
           in if ip = [] \<and> fp = [] then None
              else
                let (ex, r3) = scan_exponent r2;
                    m = int (digits_val (ip @ fp))
                in Some (Dec (if neg then - m else m) (ex - int (length fp)), r3))"



section \<open>The runtime and the services\<close>

text \<open>
  What the handlers take from the JavaScript runtime without computing it themselves is
  a parameter of the model: the JSON codec, the calendar, the clock and the random
  source. \<open>JSON_parse\<close> gives \<open>None\<close> where \<^verbatim>\<open>JSON.parse\<close> throws a SyntaxError,
  \<open>Date_time v\<close> is the time value of \<^verbatim>\<open>new Date(v)\<close> (\<open>None\<close> for an invalid date, on
  which \<^verbatim>\<open>toISOString\<close> throws a RangeError), \<open>clock n\<close> is the \<open>n\<close>-th reading of
  \<^verbatim>\<open>Date.now()\<close> or \<^verbatim>\<open>new Date()\<close> and \<open>randomUUID n\<close> the \<open>n\<close>-th draw of
  \<^verbatim>\<open>crypto.randomUUID()\<close>. The two operations on numbers that round are parameters as
  well: \<open>parseFloat_string s\<close> is the number that \<^verbatim>\<open>parseFloat\<close> reads from the string
  \<open>s\<close>, and \<open>toFixed x d\<close> is \<^verbatim>\<open>x.toFixed(d)\<close>. The numbers a runtime hands out are
  doubles, in the notation above.
\<close>

record runtime =
  JSON_parse :: "string \<Rightarrow> jsval option"
  JSON_stringify :: "jsval \<Rightarrow> string"
  JSON_stringify_indent2 :: "jsval \<Rightarrow> string"
  Date_time :: "jsval \<Rightarrow> int option"
  toISOString :: "int \<Rightarrow> string"
  clock :: "nat \<Rightarrow> int"
  randomUUID :: "nat \<Rightarrow> string"
  error_message :: "error \<Rightarrow> string"
  parseFloat_string :: "string \<Rightarrow> jsnum"
  toFixed :: "jsnum \<Rightarrow> nat \<Rightarrow> string"

text \<open>
  \<^verbatim>\<open>parseFloat(v)\<close> reads a number from \<^verbatim>\<open>String(v)\<close>. When \<open>v\<close> is a number, that string
  is the one \<^verbatim>\<open>Number::toString\<close> printed, which reads back as the same number (ECMA-262,
  the note on \<^verbatim>\<open>Number::toString\<close>), so the result is \<open>v\<close> itself; on every other value the
  runtime reads the string.
\<close>

definition parseFloat :: "runtime \<Rightarrow> jsval \<Rightarrow> jsnum" where
  "parseFloat rt v = (case v of Number n \<Rightarrow> n | _ \<Rightarrow> parseFloat_string rt (to_string v))"

text \<open>
  The resources of \<^verbatim>\<open>payment-webhook-stack.ts\<close>, one of each kind the handlers talk to.
  The table has the partition key \<^verbatim>\<open>paymentId\<close> (a string) and the sort key
  \<^verbatim>\<open>timestamp\<close> (a number); DynamoDB compares numbers by value, so a number
  attribute holds the value of its decimal string.

  The world is what the handlers can change or observe: the contents of the table, the
  bucket, the two queues, the bus, the topic and the console, how often the clock and the
  random source have been read, and which services are out of reach. A call to a service
  in \<open>unavailable\<close> throws and changes nothing.
\<close>

datatype attr = S string | N rat

type_synonym item = "string \<Rightarrow> attr option"

datatype level = LOG | WARN | ERROR

datatype queue = ProcessingQueue | NotificationQueue

record bus_entry =
  Source :: string
  DetailType :: string
  Detail :: string

record world =
  ticks :: nat
  draws :: nat
  unavailable :: "service set"
  payment_table :: "string \<times> rat \<Rightarrow> item option"
  archive_bucket :: "string \<Rightarrow> string option"
  processing_queue :: "string list"
  notification_queue :: "string list"
  event_bus :: "bus_entry list"
  alert_topic :: "(string \<times> string) list"
  console :: "(level \<times> string) list"

text \<open>A computation returns a value or throws; either way it leaves a world behind.\<close>

datatype 'a result = Return 'a world | Throw error world

definition Date_now :: "runtime \<Rightarrow> world \<Rightarrow> int \<times> world" where
  "Date_now rt w = (clock rt (ticks w), w\<lparr>ticks := Suc (ticks w)\<rparr>)"

definition crypto_randomUUID :: "runtime \<Rightarrow> world \<Rightarrow> string \<times> world" where
  "crypto_randomUUID rt w = (randomUUID rt (draws w), w\<lparr>draws := Suc (draws w)\<rparr>)"

definition console_write :: "level \<Rightarrow> string \<Rightarrow> world \<Rightarrow> world" where
  "console_write l s w = w\<lparr>console := console w @ [(l, s)]\<rparr>"

subsection \<open>DynamoDB\<close>

text \<open>
  The attribute values the code writes: \<^verbatim>\<open>{ S: v }\<close> is valid for a string \<open>v\<close>,
  \<^verbatim>\<open>{ N: s }\<close> for a string \<open>s\<close> that is a decimal number as a whole. An invalid value is
  \<open>None\<close> and makes the service reject the request. (The limits of DynamoDB on the
  precision and the magnitude of a number are not modelled.)
\<close>

definition attr_S :: "jsval \<Rightarrow> attr option" where
  "attr_S v = (case v of String s \<Rightarrow> Some (S s) | _ \<Rightarrow> None)"

definition attr_N :: "string \<Rightarrow> attr option" where
  "attr_N s = (case scan_decimal s of Some (Dec m e, []) \<Rightarrow> Some (N (num_val m e)) | _ \<Rightarrow> None)"

fun item_of :: "(string \<times> attr option) list \<Rightarrow> item" where
  "item_of [] = Map.empty"
| "item_of ((n, Some a) # r) = (item_of r)(n \<mapsto> a)"
| "item_of ((n, None) # r) = item_of r"

definition valid_attrs :: "(string \<times> attr option) list \<Rightarrow> bool" where
  "valid_attrs attrs = list_all (\<lambda>(n, a). a \<noteq> None) attrs"

text \<open>The primary key among the attributes; the partition key may not be the empty string.\<close>

definition key_of :: "(string \<times> attr option) list \<Rightarrow> (string \<times> rat) option" where
  "key_of attrs =
     (case (item_of attrs ''paymentId'', item_of attrs ''timestamp'') of
        (Some (S p), Some (N t)) \<Rightarrow> if p = [] then None else Some (p, t)
      | _ \<Rightarrow> None)"

text \<open>\<^verbatim>\<open>PutItemCommand\<close>: the item replaces whatever the table holds under its key.\<close>

definition PutItem :: "(string \<times> attr option) list \<Rightarrow> world \<Rightarrow> unit result" where
  "PutItem attrs w =
     (if DynamoDB \<in> unavailable w then Throw (ServiceUnavailable DynamoDB) w
      else if \<not> valid_attrs attrs then Throw ValidationException w
      else case key_of attrs of
             None \<Rightarrow> Throw ValidationException w
           | Some k \<Rightarrow> Return () (w\<lparr>payment_table := (payment_table w)(k \<mapsto> item_of attrs)\<rparr>))"

text \<open>
  \<^verbatim>\<open>UpdateItemCommand\<close> with an update expression \<^verbatim>\<open>SET a = :a, ...\<close> and no condition:
  the attributes are set on the item under the key, which is created when the table has
  none.
\<close>

definition UpdateItem ::
  "(string \<times> attr option) list \<Rightarrow> (string \<times> attr option) list \<Rightarrow> world \<Rightarrow> unit result" where
  "UpdateItem key sets w =
     (if DynamoDB \<in> unavailable w then Throw (ServiceUnavailable DynamoDB) w
      else if \<not> valid_attrs key \<or> \<not> valid_attrs sets then Throw ValidationException w
      else case key_of key of
             None \<Rightarrow> Throw ValidationException w
           | Some k \<Rightarrow>
               Return ()
                 (w\<lparr>payment_table := (payment_table w)
                      (k \<mapsto> (case payment_table w k of None \<Rightarrow> item_of key | Some it \<Rightarrow> it)
                            ++ item_of sets)\<rparr>))"

text \<open>\<^verbatim>\<open>GetItemCommand\<close>: the item under the key, if any.\<close>

definition GetItem :: "(string \<times> attr option) list \<Rightarrow> world \<Rightarrow> item option result" where
  "GetItem key w =
     (if DynamoDB \<in> unavailable w then Throw (ServiceUnavailable DynamoDB) w
      else if \<not> valid_attrs key then Throw ValidationException w
      else case key_of key of
             None \<Rightarrow> Throw ValidationException w
           | Some k \<Rightarrow> Return (payment_table w k) w)"

subsection \<open>S3, SQS, EventBridge, SNS\<close>

definition PutObject :: "string \<Rightarrow> string \<Rightarrow> world \<Rightarrow> unit result" where
  "PutObject key body w =
     (if S3 \<in> unavailable w then Throw (ServiceUnavailable S3) w
      else Return () (w\<lparr>archive_bucket := (archive_bucket w)(key \<mapsto> body)\<rparr>))"

definition SendMessage :: "queue \<Rightarrow> string \<Rightarrow> world \<Rightarrow> unit result" where
  "SendMessage q body w =
     (if SQS \<in> unavailable w then Throw (ServiceUnavailable SQS) w
      else case q of
             ProcessingQueue \<Rightarrow> Return () (w\<lparr>processing_queue := processing_queue w @ [body]\<rparr>)
           | NotificationQueue \<Rightarrow>
               Return () (w\<lparr>notification_queue := notification_queue w @ [body]\<rparr>))"

definition PutEvents :: "bus_entry \<Rightarrow> world \<Rightarrow> unit result" where
  "PutEvents entry w =
     (if EventBridge \<in> unavailable w then Throw (ServiceUnavailable EventBridge) w
      else Return () (w\<lparr>event_bus := event_bus w @ [entry]\<rparr>))"

definition Publish :: "string \<Rightarrow> string \<Rightarrow> world \<Rightarrow> unit result" where
  "Publish subject message w =
     (if SNS \<in> unavailable w then Throw (ServiceUnavailable SNS) w
      else Return () (w\<lparr>alert_topic := alert_topic w @ [(subject, message)]\<rparr>))"

section \<open>The event processor\<close>

text \<open>
  \<^verbatim>\<open>processedPayment\<close>, the normalized event of the handler, with the fields of the object
  literal. \<open>as_object\<close> is the object itself, which \<^verbatim>\<open>JSON.stringify\<close> serializes.
\<close>

record processed_payment =
  paymentId :: jsval
  timestamp :: jsval
  provider :: jsval
  amount :: jsnum
  currency :: jsval
  status :: jsval
  processedAt :: int

definition as_object :: "processed_payment \<Rightarrow> jsval" where
  "as_object p =
     Object [(''paymentId'', paymentId p), (''timestamp'', timestamp p),
             (''provider'', provider p), (''amount'', Number (amount p)),
             (''currency'', currency p), (''status'', status p),
             (''processedAt'', Number (Dec (processedAt p) 0))]"

text \<open>
  The object literal reads four properties of the payload, which throws a TypeError
  when the payload is \<^verbatim>\<open>undefined\<close> or \<^verbatim>\<open>null\<close>, and then the clock.
\<close>

definition processedPayment :: "runtime \<Rightarrow> jsval \<Rightarrow> jsval \<Rightarrow> jsval \<Rightarrow> int \<Rightarrow> error + processed_payment" where
  "processedPayment rt pid ts payload now =
     (case get_prop payload ''provider'' of Inl e \<Rightarrow> Inl e | Inr pr \<Rightarrow>
     (case get_prop payload ''amount'' of Inl e \<Rightarrow> Inl e | Inr am \<Rightarrow>
     (case get_prop payload ''currency'' of Inl e \<Rightarrow> Inl e | Inr cu \<Rightarrow>
     (case get_prop payload ''status'' of Inl e \<Rightarrow> Inl e | Inr st \<Rightarrow>
        Inr \<lparr>paymentId = pid,
             timestamp = ts,
             provider = or_else pr (String ''unknown''),
             amount = parseFloat rt (or_else am (Number (Dec 0 0))),
             currency = or_else cu (String ''USD''),
             status = or_else st (String ''processed''),
             processedAt = now\<rparr>))))"

text \<open>A property of a value already known not to be \<^verbatim>\<open>undefined\<close> or \<^verbatim>\<open>null\<close>.\<close>

definition the_prop :: "jsval \<Rightarrow> string \<Rightarrow> jsval" where
  "the_prop v name = (case get_prop v name of Inl e \<Rightarrow> Undefined | Inr x \<Rightarrow> x)"

text \<open>
  The store update of the handler: under the key of the queued item, \<^verbatim>\<open>status\<close> is set to
  the constant \<^verbatim>\<open>processed\<close>, \<^verbatim>\<open>processedAt\<close> to a second reading of the clock and
  \<^verbatim>\<open>currency\<close> to the currency of the normalized event.
\<close>

definition store_update :: "jsval \<Rightarrow> string \<Rightarrow> int \<Rightarrow> jsval \<Rightarrow> world \<Rightarrow> unit result" where
  "store_update pid ts now cu w =
     UpdateItem [(''paymentId'', attr_S pid), (''timestamp'', attr_N ts)]
                [(''status'', attr_S (String ''processed'')),
                 (''processedAt'', attr_N (num_to_string (Dec now 0))),
                 (''currency'', attr_S cu)] w"

text \<open>
  The body of the loop, inside the \<^verbatim>\<open>try\<close>, for one record of the batch. An SQS event
  is the list of its records, and a record is given by its body.
\<close>

definition process_record :: "runtime \<Rightarrow> string \<Rightarrow> world \<Rightarrow> unit result" where
  "process_record rt body w =
     (case JSON_parse rt body of None \<Rightarrow> Throw SyntaxError w | Some message \<Rightarrow>
     (case get_prop message ''paymentId'' of Inl e \<Rightarrow> Throw e w | Inr pid \<Rightarrow>
     (case get_prop message ''timestamp'' of Inl e \<Rightarrow> Throw e w | Inr ts \<Rightarrow>
     (case get_prop message ''payload'' of Inl e \<Rightarrow> Throw e w | Inr payload \<Rightarrow>
     (case processedPayment rt pid ts payload (fst (Date_now rt w)) of Inl e \<Rightarrow> Throw e w | Inr p \<Rightarrow>
      let w1 = snd (Date_now rt w) in
     (case toString_method ts of Inl e \<Rightarrow> Throw e w1 | Inr tss \<Rightarrow>
      let (now, w2) = Date_now rt w1 in
     (case store_update pid tss now (currency p) w2 of Throw e w3 \<Rightarrow> Throw e w3 | Return _ w3 \<Rightarrow>
     (case PutEvents \<lparr>Source = ''payment.processor'', DetailType = ''Payment Processed'',
                      Detail = JSON_stringify rt (as_object p)\<rparr> w3 of
        Throw e w4 \<Rightarrow> Throw e w4
      | Return _ w4 \<Rightarrow>
          if greater_than (amount p) 10000 \<or> the_prop payload ''status'' = String ''failed'' then
            (case SendMessage NotificationQueue (JSON_stringify rt (as_object p)) w4 of
              Throw e w5 \<Rightarrow> Throw e w5
            | Return _ w5 \<Rightarrow>
                Return ()
                  (console_write LOG
                     (''Processed payment '' @ to_string pid @ '': $'' @ num_to_string (amount p))
                     (console_write LOG
                        (''High-value or failed payment queued for notification: '' @ to_string pid)
                        w5)))
          else
            Return ()
              (console_write LOG
                 (''Processed payment '' @ to_string pid @ '': $'' @ num_to_string (amount p)) w4)))))))))"

text \<open>
  The handler: the records of the batch in order; the \<^verbatim>\<open>catch\<close> logs and rethrows, which
  ends the loop and the invocation.
\<close>

fun event_processor :: "runtime \<Rightarrow> string list \<Rightarrow> world \<Rightarrow> unit result" where
  "event_processor rt [] w = Return () w"
| "event_processor rt (body # records) w =
     (case process_record rt body w of
        Throw e w' \<Rightarrow> Throw e (console_write ERROR ''Error processing payment:'' w')
      | Return _ w' \<Rightarrow> event_processor rt records w')"

section \<open>The notification handler\<close>

definition join_lines :: "string list \<Rightarrow> string" where
  "join_lines ls = concat (map (\<lambda>l. l @ [CHR 0x0A]) (butlast ls)) @ last ls"

definition alert_subject :: "jsval \<Rightarrow> jsnum \<Rightarrow> string" where
  "alert_subject st am =
     (if st = String ''failed'' then ''URGENT: Failed Payment Alert - $'' @ num_to_string am
      else ''High-Value Payment Alert: $'' @ num_to_string am)"

text \<open>The template of the message, trimmed: \<open>cu\<close> is \<^verbatim>\<open>payment.currency || 'USD'\<close> and
  \<open>date\<close> the timestamp in ISO 8601.\<close>

definition alert_message :: "runtime \<Rightarrow> jsval \<Rightarrow> jsval \<Rightarrow> jsnum \<Rightarrow> jsval \<Rightarrow> jsval \<Rightarrow> string \<Rightarrow> string" where
  "alert_message rt pid pr am cu st date =
     join_lines
       [''Payment Notification'',
        ''===================='',
        '''',
        ''Type: '' @ (if st = String ''failed'' then ''FAILED PAYMENT'' else ''HIGH-VALUE PAYMENT''),
        '''',
        ''Payment Details:'',
        ''- Payment ID: '' @ to_string pid,
        ''- Provider: '' @ to_string pr,
        ''- Amount: $'' @ toFixed rt am 2,
        ''- Currency: '' @ to_string cu,
        ''- Status: '' @ to_string st,
        ''- Timestamp: '' @ date,
        '''',
        (if st = String ''failed'' then ''IMMEDIATE ACTION REQUIRED''
         else ''Please review this transaction for compliance.''),
        '''',
        ''This is an automated alert from the Payment Webhook Processing System.'']"

definition notify_record :: "runtime \<Rightarrow> string \<Rightarrow> world \<Rightarrow> unit result" where
  "notify_record rt body w =
     (case JSON_parse rt body of None \<Rightarrow> Throw SyntaxError w | Some payment \<Rightarrow>
     (case get_prop payment ''paymentId'' of Inl e \<Rightarrow> Throw e w | Inr pid \<Rightarrow>
     (case toString_method (the_prop payment ''timestamp'') of Inl e \<Rightarrow> Throw e w | Inr tss \<Rightarrow>
     (case GetItem [(''paymentId'', attr_S pid), (''timestamp'', attr_N tss)] w of
        Throw e w1 \<Rightarrow> Throw e w1
      | Return None w1 \<Rightarrow>
          Return () (console_write WARN (''Payment '' @ to_string pid @ '' not found in DynamoDB'') w1)
      | Return (Some it) w1 \<Rightarrow>
          let am = parseFloat rt (or_else (the_prop payment ''amount'') (Number (Dec 0 0)));
              pr = or_else (the_prop payment ''provider'') (String ''unknown'');
              st = or_else (the_prop payment ''status'') (String ''unknown'')
          in if greater_than am 10000 \<or> st = String ''failed'' then
               (case Date_time rt (or_else (the_prop payment ''processedAt'')
                                          (the_prop payment ''timestamp'')) of
                 None \<Rightarrow> Throw RangeError w1
               | Some t \<Rightarrow>
                   (case Publish (alert_subject st am)
                          (alert_message rt pid pr am
                             (or_else (the_prop payment ''currency'') (String ''USD'')) st
                             (toISOString rt t)) w1 of
                     Throw e w2 \<Rightarrow> Throw e w2
                   | Return _ w2 \<Rightarrow>
                       Return ()
                         (console_write LOG
                            (''Sent alert for payment '' @ to_string pid @ '' ('' @ to_string st
                               @ '', $'' @ num_to_string am @ '')'') w2)))
             else Return () w1))))"

fun notification_handler :: "runtime \<Rightarrow> string list \<Rightarrow> world \<Rightarrow> unit result" where
  "notification_handler rt [] w = Return () w"
| "notification_handler rt (body # records) w =
     (case notify_record rt body w of
        Throw e w' \<Rightarrow> Throw e (console_write ERROR ''Error sending notification:'' w')
      | Return _ w' \<Rightarrow> notification_handler rt records w')"

text \<open>
  What the queue delivers again after an invocation. Both event sources of the stack are
  \<^verbatim>\<open>new SqsEventSource(queue, { batchSize: 10 })\<close>, and both handlers return nothing: an
  invocation that returns acknowledges every record of its batch, and one that throws
  acknowledges none, so the whole batch becomes visible again.
\<close>

definition redelivered :: "string list \<Rightarrow> unit result \<Rightarrow> string list" where
  "redelivered batch r = (case r of Return _ w \<Rightarrow> [] | Throw e w \<Rightarrow> batch)"

section \<open>The webhook receiver\<close>

record api_event =
  path :: string
  httpMethod :: string
  body :: "string option"
  headers :: "string \<Rightarrow> string option"

record api_result =
  statusCode :: nat
  result_body :: string

text \<open>The source accepts every signature.\<close>

definition validateSignature :: "jsval \<Rightarrow> string \<Rightarrow> bool" where
  "validateSignature payload signature = True"

text \<open>
  \<^verbatim>\<open>event.headers['X-Webhook-Signature'] || event.headers['x-webhook-signature'] || ''\<close>
\<close>

definition signature_header :: "api_event \<Rightarrow> string" where
  "signature_header ev =
     (case headers ev ''X-Webhook-Signature'' of
        Some s \<Rightarrow> if s \<noteq> [] then s
                  else (case headers ev ''x-webhook-signature'' of Some s' \<Rightarrow> s' | None \<Rightarrow> '''')
      | None \<Rightarrow> (case headers ev ''x-webhook-signature'' of Some s' \<Rightarrow> s' | None \<Rightarrow> ''''))"

text \<open>\<^verbatim>\<open>payload.amount?.toString() || '0'\<close>\<close>

definition amount_string :: "jsval \<Rightarrow> string" where
  "amount_string am =
     (case am of
        Undefined \<Rightarrow> ''0''
      | Null \<Rightarrow> ''0''
      | _ \<Rightarrow> if to_string am = [] then ''0'' else to_string am)"

text \<open>The item the receiver stores, in state \<^verbatim>\<open>received\<close>.\<close>

definition received_item :: "runtime \<Rightarrow> jsval \<Rightarrow> int \<Rightarrow> jsval \<Rightarrow> (string \<times> attr option) list" where
  "received_item rt pid ts payload =
     [(''paymentId'', attr_S pid),
      (''timestamp'', attr_N (num_to_string (Dec ts 0))),
      (''provider'', attr_S (or_else (the_prop payload ''provider'') (String ''unknown''))),
      (''amount'', attr_N (amount_string (the_prop payload ''amount''))),
      (''status'', attr_S (String ''received'')),
      (''rawPayload'', attr_S (String (JSON_stringify rt payload)))]"

definition archive_key :: "string \<Rightarrow> jsval \<Rightarrow> string" where
  "archive_key date pid = ''webhooks/'' @ date @ ''/'' @ to_string pid @ ''.json''"

definition queue_message :: "jsval \<Rightarrow> int \<Rightarrow> jsval \<Rightarrow> jsval" where
  "queue_message pid ts payload =
     Object [(''paymentId'', pid), (''timestamp'', Number (Dec ts 0)), (''payload'', payload)]"

definition received_response :: "jsval \<Rightarrow> int \<Rightarrow> jsval" where
  "received_response pid ts =
     Object [(''message'', String ''Webhook received''), (''paymentId'', pid),
             (''timestamp'', Number (Dec ts 0))]"

text \<open>The body of the \<^verbatim>\<open>try\<close>: it returns a response or throws.\<close>

definition receive :: "runtime \<Rightarrow> api_event \<Rightarrow> world \<Rightarrow> api_result result" where
  "receive rt ev w =
     (if path ev = ''/health'' \<or> httpMethod ev = ''GET'' then
        (let (now, w1) = Date_now rt w
         in Return \<lparr>statusCode = 200,
                     result_body = JSON_stringify rt
                       (Object [(''status'', String ''healthy''),
                                (''timestamp'', String (toISOString rt now))])\<rparr> w1)
      else
       (case (case body ev of None \<Rightarrow> None | Some b \<Rightarrow> if b = [] then None else Some b) of
          None \<Rightarrow>
            Return \<lparr>statusCode = 400,
                     result_body = JSON_stringify rt
                       (Object [(''error'', String ''Missing request body'')])\<rparr> w
        | Some b \<Rightarrow>
       (case JSON_parse rt b of None \<Rightarrow> Throw SyntaxError w | Some payload \<Rightarrow>
        if \<not> validateSignature payload (signature_header ev) then
          Return \<lparr>statusCode = 401,
                   result_body = JSON_stringify rt
                     (Object [(''error'', String ''Invalid signature'')])\<rparr> w
        else
       (case get_prop payload ''paymentId'' of Inl e \<Rightarrow> Throw e w | Inr given \<Rightarrow>
        let (pid, w1) = (if truthy given then (given, w)
                         else (String (fst (crypto_randomUUID rt w)), snd (crypto_randomUUID rt w)));
            (ts, w2) = Date_now rt w1
        in
       (case PutItem (received_item rt pid ts payload) w2 of
          Throw e w3 \<Rightarrow> Throw e w3
        | Return _ w3 \<Rightarrow>
        let (now, w4) = Date_now rt w3;
            date = takeWhile (\<lambda>c. c \<noteq> CHR ''T'') (toISOString rt now)
        in
       (case PutObject (archive_key date pid) (JSON_stringify_indent2 rt payload) w4 of
          Throw e w5 \<Rightarrow> Throw e w5
        | Return _ w5 \<Rightarrow>
       (case SendMessage ProcessingQueue (JSON_stringify rt (queue_message pid ts payload)) w5 of
          Throw e w6 \<Rightarrow> Throw e w6
        | Return _ w6 \<Rightarrow>
            Return \<lparr>statusCode = 200,
                     result_body = JSON_stringify rt (received_response pid ts)\<rparr>
              (console_write LOG (''Webhook received and processed: '' @ to_string pid) w6))))))))"

text \<open>The handler: the \<^verbatim>\<open>catch\<close> turns every exception into a response with status 500.\<close>

definition webhook_receiver :: "runtime \<Rightarrow> api_event \<Rightarrow> world \<Rightarrow> api_result \<times> world" where
  "webhook_receiver rt ev w =
     (case receive rt ev w of
        Return r w' \<Rightarrow> (r, w')
      | Throw e w' \<Rightarrow>
          (\<lparr>statusCode = 500,
            result_body = JSON_stringify rt
              (Object [(''error'', String ''Internal server error''),
                       (''message'', String (error_message rt e))])\<rparr>,
           console_write ERROR ''Error processing webhook:'' w'))"

section \<open>The routing rules of the event bus\<close>

text \<open>
  An event pattern as the stack declares it: the accepted sources and detail types, and
  for a field of the detail a list of content filters, one of which has to match. A
  numeric filter is a list of comparisons that all have to hold; it matches numbers only.
  (The limits of the bus on the magnitude and the precision of the numbers it compares
  are not modelled.)
\<close>

datatype numeric_op = Lt | Le | Eq | Ge | Gt

datatype content_filter = Numeric "(numeric_op \<times> rat) list"

record event_pattern =
  pattern_source :: "string list"
  pattern_detailType :: "string list"
  pattern_detail :: "(string \<times> content_filter list) list"

fun numeric_holds :: "rat \<Rightarrow> numeric_op \<times> rat \<Rightarrow> bool" where
  "numeric_holds x (Lt, b) = (x < b)"
| "numeric_holds x (Le, b) = (x \<le> b)"
| "numeric_holds x (Eq, b) = (x = b)"
| "numeric_holds x (Ge, b) = (b \<le> x)"
| "numeric_holds x (Gt, b) = (b < x)"

fun filter_matches :: "jsval \<Rightarrow> content_filter \<Rightarrow> bool" where
  "filter_matches (Number (Dec m e)) (Numeric conds) = list_all (numeric_holds (num_val m e)) conds"
| "filter_matches v (Numeric conds) = False"

definition field_matches :: "jsval \<Rightarrow> string \<times> content_filter list \<Rightarrow> bool" where
  "field_matches detail ff =
     (case detail of
        Object fs \<Rightarrow> (case map_of fs (fst ff) of
                        None \<Rightarrow> False
                      | Some v \<Rightarrow> list_ex (filter_matches v) (snd ff))
      | _ \<Rightarrow> False)"

text \<open>Whether a rule matches an event with the given source, detail type and detail.\<close>

definition rule_matches :: "event_pattern \<Rightarrow> string \<Rightarrow> string \<Rightarrow> jsval \<Rightarrow> bool" where
  "rule_matches p src dt detail =
     (src \<in> set (pattern_source p) \<and> dt \<in> set (pattern_detailType p) \<and>
      list_all (field_matches detail) (pattern_detail p))"

definition HighValuePaymentRule :: event_pattern where
  "HighValuePaymentRule =
     \<lparr>pattern_source = [''payment.processor''],
      pattern_detailType = [''Payment Processed''],
      pattern_detail = [(''amount'', [Numeric [(Gt, 10000)]])]\<rparr>"

definition StandardPaymentRule :: event_pattern where
  "StandardPaymentRule =
     \<lparr>pattern_source = [''payment.processor''],
      pattern_detailType = [''Payment Processed''],
      pattern_detail = [(''amount'', [Numeric [(Le, 10000)]])]\<rparr>"

section \<open>A concrete runtime and world\<close>

text \<open>
  For the runs below: a small JSON serializer, a parser that knows the documents of the
  runs, a clock that stands at 2023-11-14T22:13:20.000Z, and a world with an empty table,
  bucket, queues, bus and topic in which every service is available. The amounts of the
  runs are whole numbers, and the only string read as a number is \<^verbatim>\<open>abc\<close>; on these the
  two number operations of this runtime are those of JavaScript: \<open>decimal_prefix\<close> reads
  the decimal at the head of a string after ASCII white space (NaN when there is none)
  and \<open>whole_toFixed\<close> appends the fraction digits to a whole number.
\<close>

definition is_space :: "char \<Rightarrow> bool" where
  "is_space c = (c \<in> {CHR 0x09, CHR 0x0A, CHR 0x0B, CHR 0x0C, CHR 0x0D, CHR '' ''})"

definition decimal_prefix :: "string \<Rightarrow> jsnum" where
  "decimal_prefix s =
     (case scan_decimal (dropWhile is_space s) of None \<Rightarrow> NaN | Some (x, _) \<Rightarrow> x)"

definition whole_toFixed :: "jsnum \<Rightarrow> nat \<Rightarrow> string" where
  "whole_toFixed x d = num_to_string x @ ''.'' @ replicate d CHR ''0''"

definition world_of :: "'a result \<Rightarrow> world" where
  "world_of r = (case r of Return x w \<Rightarrow> w | Throw e w \<Rightarrow> w)"

definition thrown :: "'a result \<Rightarrow> error option" where
  "thrown r = (case r of Return x w \<Rightarrow> None | Throw e w \<Rightarrow> Some e)"

definition quoted :: "string \<Rightarrow> string" where
  "quoted s =
     CHR 0x22 # concat (map (\<lambda>c. if c = CHR 0x22 \<or> c = CHR 0x5C then [CHR 0x5C, c] else [c]) s)
       @ [CHR 0x22]"

fun commas :: "string list \<Rightarrow> string" where
  "commas [] = ''''"
| "commas [x] = x"
| "commas (x # y # ys) = x @ '','' @ commas (y # ys)"

fun json_text :: "jsval \<Rightarrow> string"
  and json_elems :: "jsval list \<Rightarrow> string list"
  and json_members :: "(string \<times> jsval) list \<Rightarrow> string list" where
  "json_text Undefined = ''null''"
| "json_text Null = ''null''"
| "json_text (Bool b) = (if b then ''true'' else ''false'')"
| "json_text (Number n) = (case n of Dec m e \<Rightarrow> num_to_string n | _ \<Rightarrow> ''null'')"
| "json_text (String s) = quoted s"
| "json_text (Array xs) = ''['' @ commas (json_elems xs) @ '']''"
| "json_text (Object fs) = ''{'' @ commas (json_members fs) @ ''}''"
| "json_elems [] = []"
| "json_elems (x # xs) = json_text x # json_elems xs"
| "json_members [] = []"
| "json_members ((k, v) # fs) =
     (if v = Undefined then json_members fs
      else (quoted k @ '':'' @ json_text v) # json_members fs)"

definition scenario_payload :: "string \<Rightarrow> int \<Rightarrow> jsval" where
  "scenario_payload st am =
     Object [(''paymentId'', String ''pay_1''), (''provider'', String ''stripe''),
             (''amount'', Number (Dec am 0)), (''currency'', String ''USD''),
             (''status'', String st)]"

definition scenario_event :: "string \<Rightarrow> int \<Rightarrow> processed_payment" where
  "scenario_event st am =
     \<lparr>paymentId = String ''pay_1'', timestamp = Number (Dec 1700000000000 0),
      provider = String ''stripe'', amount = Dec am 0, currency = String ''USD'',
      status = String st, processedAt = 1700000000000\<rparr>"

text \<open>A queued item without a payload: the processor throws a TypeError on it.\<close>

definition broken_item :: jsval where
  "broken_item = Object [(''paymentId'', String ''pay_2''), (''timestamp'', Number (Dec 1700000000000 0))]"

text \<open>A notification without a timestamp: the notifier throws a TypeError on it.\<close>

definition broken_notification :: jsval where
  "broken_notification = Object [(''paymentId'', String ''pay_2'')]"

definition demo_documents :: "jsval list" where
  "demo_documents =
     [scenario_payload ''succeeded'' 15000,
      scenario_payload ''failed'' 50,
      queue_message (String ''pay_1'') 1700000000000 (scenario_payload ''succeeded'' 15000),
      queue_message (String ''pay_1'') 1700000000000 (scenario_payload ''failed'' 50),
      queue_message (String ''pay_1'') 1700000000000 (scenario_payload ''succeeded'' 120),
      as_object (scenario_event ''succeeded'' 15000),
      as_object (scenario_event ''failed'' 50),
      broken_item,
      broken_notification]"

definition demo_runtime :: runtime where
  "demo_runtime =
     \<lparr>JSON_parse = (\<lambda>s. List.find (\<lambda>v. json_text v = s) demo_documents),
      JSON_stringify = json_text,
      JSON_stringify_indent2 = json_text,
      Date_time = (\<lambda>v. case v of Number (Dec m e) \<Rightarrow> if e = 0 then Some m else None | _ \<Rightarrow> None),
      toISOString = (\<lambda>t. ''2023-11-14T22:13:20.000Z''),
      clock = (\<lambda>n. 1700000000000),
      randomUUID = (\<lambda>n. ''123e4567-e89b-12d3-a456-426614174000''),
      error_message = (\<lambda>e. ''error''),
      parseFloat_string = decimal_prefix,
      toFixed = whole_toFixed\<rparr>"

definition demo_world :: world where
  "demo_world =
     \<lparr>ticks = 0, draws = 0, unavailable = {},
      payment_table = Map.empty, archive_bucket = Map.empty,
      processing_queue = [], notification_queue = [], event_bus = [],
      alert_topic = [], console = []\<rparr>"

text \<open>The world after the receiver has stored the payment \<^verbatim>\<open>pay_1\<close>.\<close>

definition stored_world :: world where
  "stored_world =
     demo_world\<lparr>payment_table :=
       [(''pay_1'', 1700000000000) \<mapsto>
          item_of (received_item demo_runtime (String ''pay_1'') 1700000000000
                     (scenario_payload ''succeeded'' 15000))]\<rparr>"

text \<open>The same runtime with a clock that advances by a millisecond at every reading.\<close>

definition ticking_runtime :: runtime where
  "ticking_runtime = demo_runtime\<lparr>clock := (\<lambda>n. 1700000000000 + int n)\<rparr>"

text \<open>An attribute of the item the table holds under a key.\<close>

definition stored_attr :: "world \<Rightarrow> string \<times> rat \<Rightarrow> string \<Rightarrow> attr option" where
  "stored_attr w k a = (case payment_table w k of None \<Rightarrow> None | Some it \<Rightarrow> it a)"

section \<open>Evaluation rules\<close>

text \<open>
  The equation of \<open>dec_digits\<close> rewrites its own right-hand side, so the simplifier gets
  it as two conditional rules, which only fire once the test is decided.
\<close>

lemma dec_digits_small: "n < 10 \<Longrightarrow> dec_digits n = [digit_char n]"
  by (simp add: dec_digits.simps)

lemma dec_digits_large:
  "\<not> n < 10 \<Longrightarrow> dec_digits n = dec_digits (n div 10) @ [digit_char (n mod 10)]"
  by (subst dec_digits.simps) simp

lemma replicate_pos: "0 < n \<Longrightarrow> replicate n x = x # replicate (n - 1) x"
  by (cases n) simp_all

lemmas num_eval =
  num_to_string_def num_val_def dec_digits_small dec_digits_large
  digit_char_def replicate_pos Let_def

lemmas scan_eval =
  parseFloat_def decimal_prefix_def whole_toFixed_def scan_decimal_def scan_sign_def
  scan_exponent_def is_space_def is_digit_def
  digits_val_def digit_val_def

lemmas service_eval =
  UpdateItem_def PutItem_def GetItem_def PutObject_def SendMessage_def PutEvents_def Publish_def
  valid_attrs_def key_of_def attr_S_def attr_N_def store_update_def Date_now_def
  crypto_randomUUID_def console_write_def

lemmas handler_eval =
  process_record_def processedPayment_def notify_record_def receive_def webhook_receiver_def
  the_prop_def or_else_def toString_method_def alert_subject_def alert_message_def
  join_lines_def received_item_def amount_string_def archive_key_def
  signature_header_def validateSignature_def redelivered_def

lemma returned_unit: "thrown r = None \<Longrightarrow> r = Return () (world_of r)"
  by (cases r) (simp_all add: thrown_def world_of_def)

lemma thrown_with: "thrown r = Some e \<Longrightarrow> r = Throw e (world_of r)"
  by (cases r) (simp_all add: thrown_def world_of_def)

subsection \<open>The documents of the runs\<close>

lemma queue_message_props:
  "get_prop (queue_message pid ts payload) ''paymentId'' = Inr pid"
  "get_prop (queue_message pid ts payload) ''timestamp'' = Inr (Number (Dec ts 0))"
  "get_prop (queue_message pid ts payload) ''payload'' = Inr payload"
  by (simp_all add: queue_message_def)

lemma scenario_payload_props:
  "get_prop (scenario_payload st am) ''paymentId'' = Inr (String ''pay_1'')"
  "get_prop (scenario_payload st am) ''provider'' = Inr (String ''stripe'')"
  "get_prop (scenario_payload st am) ''amount'' = Inr (Number (Dec am 0))"
  "get_prop (scenario_payload st am) ''currency'' = Inr (String ''USD'')"
  "get_prop (scenario_payload st am) ''status'' = Inr (String st)"
  by (simp_all add: scenario_payload_def)

lemma as_object_props:
  "get_prop (as_object p) ''paymentId'' = Inr (paymentId p)"
  "get_prop (as_object p) ''timestamp'' = Inr (timestamp p)"
  "get_prop (as_object p) ''provider'' = Inr (provider p)"
  "get_prop (as_object p) ''amount'' = Inr (Number (amount p))"
  "get_prop (as_object p) ''currency'' = Inr (currency p)"
  "get_prop (as_object p) ''status'' = Inr (status p)"
  "get_prop (as_object p) ''processedAt'' = Inr (Number (Dec (processedAt p) 0))"
  by (simp_all add: as_object_def)

lemma broken_props:
  "get_prop broken_item ''paymentId'' = Inr (String ''pay_2'')"
  "get_prop broken_item ''timestamp'' = Inr (Number (Dec 1700000000000 0))"
  "get_prop broken_item ''payload'' = Inr Undefined"
  "get_prop broken_notification ''paymentId'' = Inr (String ''pay_2'')"
  "get_prop broken_notification ''timestamp'' = Inr Undefined"
  by (simp_all add: broken_item_def broken_notification_def)

lemma scenario_event_fields:
  "paymentId (scenario_event st am) = String ''pay_1''"
  "timestamp (scenario_event st am) = Number (Dec 1700000000000 0)"
  "provider (scenario_event st am) = String ''stripe''"
  "amount (scenario_event st am) = Dec am 0"
  "currency (scenario_event st am) = String ''USD''"
  "status (scenario_event st am) = String st"
  "processedAt (scenario_event st am) = 1700000000000"
  by (simp_all add: scenario_event_def)

lemma demo_fields:
  "JSON_stringify demo_runtime = json_text"
  "JSON_stringify_indent2 demo_runtime = json_text"
  "Date_time demo_runtime (Number (Dec m 0)) = Some m"
  "toISOString demo_runtime t = ''2023-11-14T22:13:20.000Z''"
  "clock demo_runtime n = 1700000000000"
  "randomUUID demo_runtime n = ''123e4567-e89b-12d3-a456-426614174000''"
  "error_message demo_runtime e = ''error''"
  "parseFloat_string demo_runtime = decimal_prefix"
  "toFixed demo_runtime = whole_toFixed"
  by (simp_all add: demo_runtime_def)

lemma ticking_fields:
  "JSON_parse ticking_runtime = JSON_parse demo_runtime"
  "JSON_stringify ticking_runtime = json_text"
  "clock ticking_runtime n = 1700000000000 + int n"
  by (simp_all add: ticking_runtime_def demo_runtime_def)

lemmas text_eval =
  demo_runtime_def demo_documents_def scenario_payload_def scenario_event_def broken_item_def
  broken_notification_def queue_message_def as_object_def quoted_def

lemma demo_parse:
  "JSON_parse demo_runtime (json_text (scenario_payload ''succeeded'' 15000))
     = Some (scenario_payload ''succeeded'' 15000)"
  "JSON_parse demo_runtime
     (json_text (queue_message (String ''pay_1'') 1700000000000 (scenario_payload ''succeeded'' 15000)))
     = Some (queue_message (String ''pay_1'') 1700000000000 (scenario_payload ''succeeded'' 15000))"
  "JSON_parse demo_runtime
     (json_text (queue_message (String ''pay_1'') 1700000000000 (scenario_payload ''failed'' 50)))
     = Some (queue_message (String ''pay_1'') 1700000000000 (scenario_payload ''failed'' 50))"
  "JSON_parse demo_runtime
     (json_text (queue_message (String ''pay_1'') 1700000000000 (scenario_payload ''succeeded'' 120)))
     = Some (queue_message (String ''pay_1'') 1700000000000 (scenario_payload ''succeeded'' 120))"
  "JSON_parse demo_runtime (json_text (as_object (scenario_event ''succeeded'' 15000)))
     = Some (as_object (scenario_event ''succeeded'' 15000))"
  "JSON_parse demo_runtime (json_text (as_object (scenario_event ''failed'' 50)))
     = Some (as_object (scenario_event ''failed'' 50))"
  "JSON_parse demo_runtime (json_text broken_item) = Some broken_item"
  "JSON_parse demo_runtime (json_text broken_notification) = Some broken_notification"
  "JSON_parse demo_runtime ''{not json'' = None"
  by (simp_all add: text_eval num_eval)

lemma scenario_payload_text: "json_text (scenario_payload st am) \<noteq> []"
  by (simp add: scenario_payload_def)

declare json_text.simps [simp del]

lemmas demo_eval =
  demo_fields demo_parse queue_message_props scenario_payload_props
  as_object_props broken_props scenario_event_fields scenario_payload_text demo_world_def stored_world_def world_of_def thrown_def
  stored_attr_def

subsection \<open>Printing an integer and reading it back\<close>

lemma digit_char_digit:
  assumes "d < 10"
  shows "is_digit (digit_char d)" and "digit_val (digit_char d) = d"
proof -
  from assms have "d \<in> {0, 1, 2, 3, 4, 5, 6, 7, 8, 9}" by auto
  then show "is_digit (digit_char d)" and "digit_val (digit_char d) = d"
    by (auto simp: digit_char_def is_digit_def digit_val_def)
qed

lemma dec_digits_digits: "list_all is_digit (dec_digits n)"
proof (induction n rule: dec_digits.induct)
  case (1 n)
  show ?case
  proof (cases "n < 10")
    case True
    then show ?thesis by (simp add: dec_digits_small digit_char_digit)
  next
    case False
    with 1 show ?thesis by (simp add: dec_digits_large digit_char_digit)
  qed
qed

lemma dec_digits_not_Nil: "dec_digits n \<noteq> []"
  by (subst dec_digits.simps) simp

lemma digits_val_snoc: "digits_val (ds @ [c]) = 10 * digits_val ds + digit_val c"
  by (simp add: digits_val_def)

lemma digits_val_dec_digits: "digits_val (dec_digits n) = n"
proof (induction n rule: dec_digits.induct)
  case (1 n)
  show ?case
  proof (cases "n < 10")
    case True
    then show ?thesis by (simp add: dec_digits_small digits_val_def digit_char_digit)
  next
    case False
    with 1 show ?thesis by (simp add: dec_digits_large digits_val_snoc digit_char_digit)
  qed
qed

lemma length_dec_digits: "n < 10 ^ k \<Longrightarrow> 0 < k \<Longrightarrow> length (dec_digits n) \<le> k"
proof (induction k arbitrary: n)
  case 0
  then show ?case by simp
next
  case (Suc k)
  show ?case
  proof (cases "n < 10")
    case True
    then show ?thesis by (simp add: dec_digits_small)
  next
    case False
    with Suc.prems have "n div 10 < 10 ^ k" and "0 < k"
      by (auto simp: less_mult_imp_div_less mult.commute intro: Suc_lessI gr0I)
    from Suc.IH [OF this] False show ?thesis by (simp add: dec_digits_large)
  qed
qed

lemma takeWhile_same: "takeWhile (\<lambda>c. c = x) ys = replicate (length (takeWhile (\<lambda>c. c = x) ys)) x"
  by (induction ys) simp_all

lemma strip_zeros_pad:
  "rev (dropWhile (\<lambda>c. c = x) (rev ds))
     @ replicate (length ds - length (rev (dropWhile (\<lambda>c. c = x) (rev ds)))) x = ds"
proof -
  let ?t = "takeWhile (\<lambda>c. c = x) (rev ds)" and ?d = "dropWhile (\<lambda>c. c = x) (rev ds)"
  have split: "rev ds = ?t @ ?d"
    by simp
  then have "length ds = length ?t + length ?d"
    by (metis length_append length_rev)
  then have pad: "length ds - length (rev ?d) = length ?t"
    by simp
  have "ds = rev ?d @ rev ?t"
    using split by (metis rev_append rev_rev_ident)
  also have "rev ?t = replicate (length ?t) x"
    by (subst takeWhile_same) simp
  finally show ?thesis
    unfolding pad by simp
qed

text \<open>An integer below \<open>10^21\<close> is printed as its digits; below that bound a timestamp in
  milliseconds always lies.\<close>

lemma num_to_string_int:
  assumes "\<bar>t\<bar> < 10 ^ 21"
  shows "num_to_string (Dec t 0)
         = (if t < 0 then ''-'' else '''') @ dec_digits (nat \<bar>t\<bar>)"
proof (cases "t = 0")
  case True
  then show ?thesis by (simp add: num_to_string_def dec_digits_small digit_char_def)
next
  case False
  let ?all = "dec_digits (nat \<bar>t\<bar>)"
  let ?s = "rev (dropWhile (\<lambda>c. c = CHR ''0'') (rev ?all))"
  from assms have "nat \<bar>t\<bar> < 10 ^ 21"
    by (simp add: nat_less_iff)
  then have short: "length ?all \<le> 21"
    by (rule length_dec_digits) simp
  have "length ?s \<le> length ?all"
    by (metis length_dropWhile_le length_rev)
  with short False strip_zeros_pad [of "CHR ''0''" ?all] show ?thesis
    by (simp add: num_to_string_def Let_def nat_diff_distrib')
qed

lemma scan_digits:
  assumes "list_all is_digit ds" and "ds \<noteq> []"
  shows "scan_decimal ds = Some (Dec (int (digits_val ds)) 0, [])"
    and "scan_decimal (CHR ''-'' # ds) = Some (Dec (- int (digits_val ds)) 0, [])"
proof -
  from assms obtain c r where ds: "ds = c # r" and c: "is_digit c"
    by (cases ds) auto
  from c have first: "c \<noteq> CHR ''-''" "c \<noteq> CHR ''+''" "c \<noteq> CHR ''I''"
    by (auto simp: is_digit_def)
  have all: "takeWhile is_digit ds = ds" "dropWhile is_digit ds = []"
    using assms(1) by (simp_all add: list_all_iff)
  have sign: "scan_sign ds = (False, ds)" "scan_sign (CHR ''-'' # ds) = (True, ds)"
    using first by (simp_all add: scan_sign_def ds)
  have inf: "take 8 ds \<noteq> ''Infinity''"
    using first by (simp add: ds)
  show "scan_decimal ds = Some (Dec (int (digits_val ds)) 0, [])"
    using inf assms(2) by (simp add: scan_decimal_def sign all scan_exponent_def)
  show "scan_decimal (CHR ''-'' # ds) = Some (Dec (- int (digits_val ds)) 0, [])"
    using inf assms(2) by (simp add: scan_decimal_def sign all scan_exponent_def)
qed

lemma attr_N_int:
  assumes "\<bar>t\<bar> < 10 ^ 21"
  shows "attr_N (num_to_string (Dec t 0)) = Some (N (of_int t))"
proof -
  define n where "n = nat \<bar>t\<bar>"
  note scan = scan_digits [OF dec_digits_digits dec_digits_not_Nil, of n]
  have printed: "num_to_string (Dec t 0) = (if t < 0 then ''-'' else '''') @ dec_digits n"
    unfolding n_def by (rule num_to_string_int [OF assms])
  show ?thesis
  proof (cases "t < 0")
    case True
    then have "- int n = t" by (simp add: n_def)
    with True show ?thesis
      by (simp add: printed attr_N_def scan digits_val_dec_digits num_val_def)
  next
    case False
    then have "int n = t" by (simp add: n_def)
    with False show ?thesis
      by (simp add: printed attr_N_def scan digits_val_dec_digits num_val_def)
  qed
qed

section \<open>The processor\<close>

lemma get_prop_Inr: "get_prop v n = Inr x \<Longrightarrow> x = the_prop v n"
  by (simp add: the_prop_def)

lemma parseFloat_Number: "parseFloat rt (Number n) = n"
  by (simp add: parseFloat_def)

lemma processedPayment_Inr:
  assumes "processedPayment rt pid ts payload now = Inr p"
  shows "p = \<lparr>paymentId = pid, timestamp = ts,
              provider = or_else (the_prop payload ''provider'') (String ''unknown''),
              amount = parseFloat rt (or_else (the_prop payload ''amount'') (Number (Dec 0 0))),
              currency = or_else (the_prop payload ''currency'') (String ''USD''),
              status = or_else (the_prop payload ''status'') (String ''processed''),
              processedAt = now\<rparr>"
  using assms
  by (auto simp: processedPayment_def the_prop_def split: sum.splits)

text \<open>What a record went through when its processing returned.\<close>

lemma process_record_Return:
  assumes "process_record rt msg w = Return () w'"
  shows "\<exists>message payload p tss w3 w4.
           JSON_parse rt msg = Some message
         \<and> get_prop message ''payload'' = Inr payload
         \<and> processedPayment rt (the_prop message ''paymentId'') (the_prop message ''timestamp'')
               payload (clock rt (ticks w)) = Inr p
         \<and> toString_method (the_prop message ''timestamp'') = Inr tss
         \<and> store_update (the_prop message ''paymentId'') tss (clock rt (Suc (ticks w))) (currency p)
               (w\<lparr>ticks := Suc (Suc (ticks w))\<rparr>) = Return () w3
         \<and> PutEvents \<lparr>Source = ''payment.processor'', DetailType = ''Payment Processed'',
                        Detail = JSON_stringify rt (as_object p)\<rparr> w3 = Return () w4
         \<and> (if greater_than (amount p) 10000 \<or> the_prop payload ''status'' = String ''failed''
             then \<exists>w5. SendMessage NotificationQueue (JSON_stringify rt (as_object p)) w4
                          = Return () w5
                    \<and> w' = console_write LOG
                             (''Processed payment '' @ to_string (the_prop message ''paymentId'')
                                @ '': $'' @ num_to_string (amount p))
                             (console_write LOG
                                (''High-value or failed payment queued for notification: ''
                                   @ to_string (the_prop message ''paymentId'')) w5)
             else w' = console_write LOG
                         (''Processed payment '' @ to_string (the_prop message ''paymentId'')
                            @ '': $'' @ num_to_string (amount p)) w4)"
  using assms
  unfolding process_record_def Let_def Date_now_def
  by (auto simp: the_prop_def split: option.splits sum.splits result.splits if_splits prod.splits)

lemma store_update_frame:
  assumes "store_update pid tss now cu w = Return () w'"
  shows "notification_queue w' = notification_queue w \<and> event_bus w' = event_bus w"
  using assms
  by (auto simp: store_update_def UpdateItem_def split: if_splits option.splits)

lemma PutEvents_Return:
  assumes "PutEvents entry w = Return () w'"
  shows "event_bus w' = event_bus w @ [entry] \<and> notification_queue w' = notification_queue w"
  using assms by (auto simp: PutEvents_def split: if_splits)

lemma SendMessage_notification_Return:
  assumes "SendMessage NotificationQueue m w = Return () w'"
  shows "notification_queue w' = notification_queue w @ [m] \<and> event_bus w' = event_bus w"
  using assms by (auto simp: SendMessage_def split: if_splits)

lemma console_write_frame:
  "notification_queue (console_write l s w) = notification_queue w"
  "event_bus (console_write l s w) = event_bus w"
  "payment_table (console_write l s w) = payment_table w"
  "alert_topic (console_write l s w) = alert_topic w"
  by (simp_all add: console_write_def)

lemma process_record_effects:
  assumes "process_record rt msg w = Return () w'"
  shows "\<exists>message payload p.
           JSON_parse rt msg = Some message
         \<and> get_prop message ''payload'' = Inr payload
         \<and> processedPayment rt (the_prop message ''paymentId'') (the_prop message ''timestamp'')
               payload (clock rt (ticks w)) = Inr p
         \<and> event_bus w' = event_bus w @
               [\<lparr>Source = ''payment.processor'', DetailType = ''Payment Processed'',
                 Detail = JSON_stringify rt (as_object p)\<rparr>]
         \<and> notification_queue w' =
               (if greater_than (amount p) 10000 \<or> the_prop payload ''status'' = String ''failed''
                then notification_queue w @ [JSON_stringify rt (as_object p)]
                else notification_queue w)"
proof -
  from process_record_Return [OF assms] obtain message payload p tss w3 w4 where
    parse: "JSON_parse rt msg = Some message" and
    payload: "get_prop message ''payload'' = Inr payload" and
    p: "processedPayment rt (the_prop message ''paymentId'') (the_prop message ''timestamp'')
          payload (clock rt (ticks w)) = Inr p" and
    upd: "store_update (the_prop message ''paymentId'') tss (clock rt (Suc (ticks w))) (currency p)
            (w\<lparr>ticks := Suc (Suc (ticks w))\<rparr>) = Return () w3" and
    put: "PutEvents \<lparr>Source = ''payment.processor'', DetailType = ''Payment Processed'',
                      Detail = JSON_stringify rt (as_object p)\<rparr> w3 = Return () w4" and
    rest: "if greater_than (amount p) 10000 \<or> the_prop payload ''status'' = String ''failed''
           then \<exists>w5. SendMessage NotificationQueue (JSON_stringify rt (as_object p)) w4
                        = Return () w5
                  \<and> w' = console_write LOG
                           (''Processed payment '' @ to_string (the_prop message ''paymentId'')
                              @ '': $'' @ num_to_string (amount p))
                           (console_write LOG
                              (''High-value or failed payment queued for notification: ''
                                 @ to_string (the_prop message ''paymentId'')) w5)
           else w' = console_write LOG
                       (''Processed payment '' @ to_string (the_prop message ''paymentId'')
                          @ '': $'' @ num_to_string (amount p)) w4"
    by blast
  have w3: "notification_queue w3 = notification_queue w" "event_bus w3 = event_bus w"
    using store_update_frame [OF upd] by simp_all
  have w4: "event_bus w4 = event_bus w @
              [\<lparr>Source = ''payment.processor'', DetailType = ''Payment Processed'',
                Detail = JSON_stringify rt (as_object p)\<rparr>]"
           "notification_queue w4 = notification_queue w"
    using PutEvents_Return [OF put] w3 by simp_all
  have "event_bus w' = event_bus w4
        \<and> notification_queue w' =
             (if greater_than (amount p) 10000 \<or> the_prop payload ''status'' = String ''failed''
              then notification_queue w4 @ [JSON_stringify rt (as_object p)]
              else notification_queue w4)"
  proof (cases "greater_than (amount p) 10000 \<or> the_prop payload ''status'' = String ''failed''")
    case True
    with rest obtain w5 where
      send: "SendMessage NotificationQueue (JSON_stringify rt (as_object p)) w4 = Return () w5" and
      w': "w' = console_write LOG
                  (''Processed payment '' @ to_string (the_prop message ''paymentId'')
                     @ '': $'' @ num_to_string (amount p))
                  (console_write LOG
                     (''High-value or failed payment queued for notification: ''
                        @ to_string (the_prop message ''paymentId'')) w5)"
      by auto
    from SendMessage_notification_Return [OF send] True show ?thesis
      by (simp add: w' console_write_frame)
  next
    case False
    with rest show ?thesis by (simp add: console_write_frame)
  qed
  with parse payload p w4 show ?thesis by auto
qed

text \<open>
  Claim C1, as the code has it. For every queued item the processor consumes, the
  normalized event is the one it publishes on the bus, and its fields are: the provider
  of the payload, \<^verbatim>\<open>unknown\<close> when absent (or falsy); the currency of the payload,
  \<^verbatim>\<open>USD\<close> when absent (or falsy); the amount \<^verbatim>\<open>parseFloat\<close> of the payload's amount, 0
  when absent (or falsy); the status of the inbound payload where it has one, and
  \<^verbatim>\<open>processed\<close> only when the payload has none; \<^verbatim>\<open>processedAt\<close> the reading of the clock.
\<close>

theorem normalized_event_fields:
  assumes "process_record rt msg w = Return () w'"
  shows "\<exists>message payload p.
           JSON_parse rt msg = Some message
         \<and> get_prop message ''payload'' = Inr payload
         \<and> event_bus w' = event_bus w @
               [\<lparr>Source = ''payment.processor'', DetailType = ''Payment Processed'',
                 Detail = JSON_stringify rt (as_object p)\<rparr>]
         \<and> paymentId p = the_prop message ''paymentId''
         \<and> timestamp p = the_prop message ''timestamp''
         \<and> provider p = (if truthy (the_prop payload ''provider'')
                          then the_prop payload ''provider'' else String ''unknown'')
         \<and> amount p = (if truthy (the_prop payload ''amount'')
                        then parseFloat rt (the_prop payload ''amount'') else Dec 0 0)
         \<and> currency p = (if truthy (the_prop payload ''currency'')
                          then the_prop payload ''currency'' else String ''USD'')
         \<and> status p = (if truthy (the_prop payload ''status'')
                        then the_prop payload ''status'' else String ''processed'')
         \<and> processedAt p = clock rt (ticks w)"
proof -
  from process_record_effects [OF assms] obtain message payload p where
    parse: "JSON_parse rt msg = Some message" and
    payload: "get_prop message ''payload'' = Inr payload" and
    p: "processedPayment rt (the_prop message ''paymentId'') (the_prop message ''timestamp'')
          payload (clock rt (ticks w)) = Inr p" and
    bus: "event_bus w' = event_bus w @
            [\<lparr>Source = ''payment.processor'', DetailType = ''Payment Processed'',
              Detail = JSON_stringify rt (as_object p)\<rparr>]"
    by blast
  have fields:
    "paymentId p = the_prop message ''paymentId''"
    "timestamp p = the_prop message ''timestamp''"
    "provider p = (if truthy (the_prop payload ''provider'')
                   then the_prop payload ''provider'' else String ''unknown'')"
    "amount p = (if truthy (the_prop payload ''amount'')
                 then parseFloat rt (the_prop payload ''amount'') else Dec 0 0)"
    "currency p = (if truthy (the_prop payload ''currency'')
                   then the_prop payload ''currency'' else String ''USD'')"
    "status p = (if truthy (the_prop payload ''status'')
                 then the_prop payload ''status'' else String ''processed'')"
    "processedAt p = clock rt (ticks w)"
    by (simp_all add: processedPayment_Inr [OF p] or_else_def parseFloat_Number)
  from parse payload bus fields show ?thesis by blast
qed

theorem normalized_event_fields_witness:
  "process_record demo_runtime
     (json_text (queue_message (String ''pay_1'') 1700000000000 (scenario_payload ''failed'' 50)))
     demo_world
   = Return () (world_of (process_record demo_runtime
       (json_text (queue_message (String ''pay_1'') 1700000000000 (scenario_payload ''failed'' 50)))
       demo_world))
   \<and> (\<exists>p. event_bus (world_of (process_record demo_runtime
              (json_text (queue_message (String ''pay_1'') 1700000000000
                 (scenario_payload ''failed'' 50))) demo_world))
            = [\<lparr>Source = ''payment.processor'', DetailType = ''Payment Processed'',
                Detail = json_text (as_object p)\<rparr>]
          \<and> provider p = String ''stripe'' \<and> amount p = Dec 50 0
          \<and> currency p = String ''USD'' \<and> status p = String ''failed''
          \<and> processedAt p = 1700000000000)"
proof -
  let ?m = "json_text (queue_message (String ''pay_1'') 1700000000000 (scenario_payload ''failed'' 50))"
  have "thrown (process_record demo_runtime ?m demo_world) = None"
    by (simp add: handler_eval demo_eval service_eval num_eval scan_eval)
  then have r: "process_record demo_runtime ?m demo_world
                = Return () (world_of (process_record demo_runtime ?m demo_world))"
    by (rule returned_unit)
  have amount: "parseFloat demo_runtime (Number (Dec 50 0)) = Dec 50 0"
    by (rule parseFloat_Number)
  from normalized_event_fields [OF r] amount r show ?thesis
    by (auto simp: demo_parse demo_fields demo_world_def the_prop_def queue_message_props
          scenario_payload_props)
qed

text \<open>
  Claim C1 as the specification words it fails on the payload
  \<^verbatim>\<open>{amount: "abc", status: "failed"}\<close>: the normalized status is \<^verbatim>\<open>failed\<close>, not
  \<^verbatim>\<open>processed\<close>, and the amount is NaN, not 0.
\<close>

theorem normalized_event_counterexample:
  "processedPayment demo_runtime (String ''pay_1'') (Number (Dec 1700000000000 0))
     (Object [(''amount'', String ''abc''), (''status'', String ''failed'')]) 1700000000000
   = Inr \<lparr>paymentId = String ''pay_1'', timestamp = Number (Dec 1700000000000 0),
          provider = String ''unknown'', amount = NaN, currency = String ''USD'',
          status = String ''failed'', processedAt = 1700000000000\<rparr>"
  by (simp add: processedPayment_def or_else_def scan_eval demo_fields)

text \<open>
  Claim C2. For every queued item the processor consumes, the normalized event is added
  to the notification queue if and only if its amount is greater than 10000 or the status
  of the original payload is \<^verbatim>\<open>failed\<close>; otherwise the queue is left as it was.
\<close>

theorem notification_trigger:
  assumes "process_record rt msg w = Return () w'"
  shows "\<exists>message payload p.
           JSON_parse rt msg = Some message
         \<and> get_prop message ''payload'' = Inr payload
         \<and> processedPayment rt (the_prop message ''paymentId'') (the_prop message ''timestamp'')
               payload (clock rt (ticks w)) = Inr p
         \<and> notification_queue w' =
               (if greater_than (amount p) 10000 \<or> the_prop payload ''status'' = String ''failed''
                then notification_queue w @ [JSON_stringify rt (as_object p)]
                else notification_queue w)
         \<and> (notification_queue w' \<noteq> notification_queue w)
             = (greater_than (amount p) 10000 \<or> the_prop payload ''status'' = String ''failed'')"
proof -
  from process_record_effects [OF assms] obtain message payload p where
    facts: "JSON_parse rt msg = Some message" "get_prop message ''payload'' = Inr payload"
      "processedPayment rt (the_prop message ''paymentId'') (the_prop message ''timestamp'')
         payload (clock rt (ticks w)) = Inr p" and
    queue: "notification_queue w' =
              (if greater_than (amount p) 10000 \<or> the_prop payload ''status'' = String ''failed''
               then notification_queue w @ [JSON_stringify rt (as_object p)]
               else notification_queue w)"
    by blast
  from queue have
    "(notification_queue w' \<noteq> notification_queue w)
       = (greater_than (amount p) 10000 \<or> the_prop payload ''status'' = String ''failed'')"
    by simp
  with facts queue show ?thesis by blast
qed

theorem notification_trigger_witness:
  "process_record demo_runtime
     (json_text (queue_message (String ''pay_1'') 1700000000000 (scenario_payload ''failed'' 50)))
     demo_world
   = Return () (world_of (process_record demo_runtime
       (json_text (queue_message (String ''pay_1'') 1700000000000 (scenario_payload ''failed'' 50)))
       demo_world))
   \<and> notification_queue (world_of (process_record demo_runtime
        (json_text (queue_message (String ''pay_1'') 1700000000000 (scenario_payload ''failed'' 50)))
        demo_world))
     = [json_text (as_object (scenario_event ''failed'' 50))]
   \<and> \<not> greater_than (Dec 50 0) 10000"
proof -
  let ?m = "json_text (queue_message (String ''pay_1'') 1700000000000 (scenario_payload ''failed'' 50))"
  have "thrown (process_record demo_runtime ?m demo_world) = None"
    by (simp add: handler_eval demo_eval service_eval num_eval scan_eval)
  then have r: "process_record demo_runtime ?m demo_world
                = Return () (world_of (process_record demo_runtime ?m demo_world))"
    by (rule returned_unit)
  have amount: "parseFloat demo_runtime (Number (Dec 50 0)) = Dec 50 0"
    by (rule parseFloat_Number)
  from notification_trigger [OF r] amount r show ?thesis
    by (auto simp: demo_parse demo_fields demo_world_def the_prop_def queue_message_props
          scenario_payload_props scenario_event_def processedPayment_def or_else_def num_val_def)
qed

section \<open>The store update of the processor\<close>

lemma UpdateItem_Return:
  assumes "UpdateItem key sets w = Return () w'"
  shows "\<exists>k. key_of key = Some k \<and> valid_attrs key \<and> valid_attrs sets
           \<and> DynamoDB \<notin> unavailable w
           \<and> w' = w\<lparr>payment_table := (payment_table w)
                     (k \<mapsto> (case payment_table w k of None \<Rightarrow> item_of key | Some it \<Rightarrow> it)
                           ++ item_of sets)\<rparr>"
  using assms by (auto simp: UpdateItem_def split: if_splits option.split_asm)

lemma UpdateItem_valid:
  assumes "key_of key = Some k" "valid_attrs key" "valid_attrs sets" "DynamoDB \<notin> unavailable w"
  shows "UpdateItem key sets w =
           Return () (w\<lparr>payment_table := (payment_table w)
                     (k \<mapsto> (case payment_table w k of None \<Rightarrow> item_of key | Some it \<Rightarrow> it)
                           ++ item_of sets)\<rparr>)"
  using assms by (simp add: UpdateItem_def)

text \<open>The three attributes the update sets, once they are valid.\<close>

lemma item_of_sets:
  assumes "valid_attrs [(''status'', attr_S (String ''processed'')),
                        (''processedAt'', attr_N (num_to_string (Dec t 0))),
                        (''currency'', attr_S cu)]"
  shows "\<exists>n c. attr_N (num_to_string (Dec t 0)) = Some n \<and> attr_S cu = Some c
           \<and> item_of [(''status'', attr_S (String ''processed'')),
                       (''processedAt'', attr_N (num_to_string (Dec t 0))),
                       (''currency'', attr_S cu)]
             = [''currency'' \<mapsto> c, ''processedAt'' \<mapsto> n, ''status'' \<mapsto> S ''processed'']"
  using assms by (auto simp: valid_attrs_def attr_S_def)

lemma overwrite_sets:
  "(base ++ [''currency'' \<mapsto> c, ''processedAt'' \<mapsto> n1, ''status'' \<mapsto> s])
      ++ [''currency'' \<mapsto> c, ''processedAt'' \<mapsto> n2, ''status'' \<mapsto> s]
   = base ++ [''currency'' \<mapsto> c, ''processedAt'' \<mapsto> n2, ''status'' \<mapsto> s]"
  by (rule ext) (simp add: map_add_def)

text \<open>
  Claim C7, as the code has it. The store update takes \<^verbatim>\<open>processedAt\<close> from the clock, not
  from the queued item. When it is applied at the time \<open>t1\<close> and then again at \<open>t2\<close> for
  the same item, the world is what the second application alone would have left: the
  status and the currency are those of the first application, \<^verbatim>\<open>processedAt\<close> is that of
  the second, and nothing adds up. With the same reading of the clock the second
  application changes nothing.
\<close>

theorem store_update_overwrites:
  assumes first: "store_update pid ts t1 cu w = Return () w1"
      and second: "store_update pid ts t2 cu w1 = Return () w2"
  shows "store_update pid ts t1 cu w1 = Return () w1
       \<and> store_update pid ts t2 cu w = Return () w2
       \<and> (\<exists>k it1 it2.
             key_of [(''paymentId'', attr_S pid), (''timestamp'', attr_N ts)] = Some k
           \<and> payment_table w1 k = Some it1 \<and> payment_table w2 k = Some it2
           \<and> it1 ''status'' = Some (S ''processed'') \<and> it2 ''status'' = Some (S ''processed'')
           \<and> it1 ''currency'' = attr_S cu \<and> it2 ''currency'' = attr_S cu
           \<and> it1 ''processedAt'' = attr_N (num_to_string (Dec t1 0))
           \<and> it2 ''processedAt'' = attr_N (num_to_string (Dec t2 0)))"
proof -
  let ?key = "[(''paymentId'', attr_S pid), (''timestamp'', attr_N ts)]"
  let ?sets = "\<lambda>t. [(''status'', attr_S (String ''processed'')),
                     (''processedAt'', attr_N (num_to_string (Dec t 0))),
                     (''currency'', attr_S cu)]"
  let ?base = "\<lambda>w k. case payment_table w k of None \<Rightarrow> item_of ?key | Some it \<Rightarrow> it"
  from UpdateItem_Return [OF first [unfolded store_update_def]] obtain k where
    k: "key_of ?key = Some k" and vk: "valid_attrs ?key" and v1: "valid_attrs (?sets t1)" and
    up: "DynamoDB \<notin> unavailable w" and
    w1: "w1 = w\<lparr>payment_table := (payment_table w)(k \<mapsto> ?base w k ++ item_of (?sets t1))\<rparr>"
    by blast
  from UpdateItem_Return [OF second [unfolded store_update_def]] k have
    v2: "valid_attrs (?sets t2)" and
    w2: "w2 = w1\<lparr>payment_table := (payment_table w1)(k \<mapsto> ?base w1 k ++ item_of (?sets t2))\<rparr>"
    by auto
  from item_of_sets [OF v1] obtain n1 c where
    n1: "attr_N (num_to_string (Dec t1 0)) = Some n1" and c: "attr_S cu = Some c" and
    i1: "item_of (?sets t1) = [''currency'' \<mapsto> c, ''processedAt'' \<mapsto> n1, ''status'' \<mapsto> S ''processed'']"
    by auto
  from item_of_sets [OF v2] c obtain n2 where
    n2: "attr_N (num_to_string (Dec t2 0)) = Some n2" and
    i2: "item_of (?sets t2) = [''currency'' \<mapsto> c, ''processedAt'' \<mapsto> n2, ''status'' \<mapsto> S ''processed'']"
    by auto
  have base1: "?base w1 k = ?base w k ++ item_of (?sets t1)"
    by (simp add: w1)
  have up1: "DynamoDB \<notin> unavailable w1"
    using up by (simp add: w1)
  have again: "store_update pid ts t1 cu w1 = Return () w1"
    unfolding store_update_def UpdateItem_valid [OF k vk v1 up1] base1
    by (simp add: i1 overwrite_sets) (simp add: w1 i1)
  have once: "store_update pid ts t2 cu w = Return () w2"
    unfolding store_update_def UpdateItem_valid [OF k vk v2 up] w2 base1
    by (simp add: i1 i2 overwrite_sets) (simp add: w1)
  have "payment_table w1 k = Some (?base w k ++ item_of (?sets t1))"
       "payment_table w2 k = Some (?base w1 k ++ item_of (?sets t2))"
    by (simp_all add: w1 w2)
  with k n1 n2 c i1 i2 have
    "\<exists>k it1 it2.
       key_of ?key = Some k
     \<and> payment_table w1 k = Some it1 \<and> payment_table w2 k = Some it2
     \<and> it1 ''status'' = Some (S ''processed'') \<and> it2 ''status'' = Some (S ''processed'')
     \<and> it1 ''currency'' = attr_S cu \<and> it2 ''currency'' = attr_S cu
     \<and> it1 ''processedAt'' = attr_N (num_to_string (Dec t1 0))
     \<and> it2 ''processedAt'' = attr_N (num_to_string (Dec t2 0))"
    by (simp add: map_add_def)
  with again once show ?thesis by blast
qed

theorem store_update_overwrites_witness:
  "store_update (String ''pay_1'') ''1700000000000'' 1700000000001 (String ''USD'') stored_world
   = Return () (world_of (store_update (String ''pay_1'') ''1700000000000'' 1700000000001
                            (String ''USD'') stored_world))
   \<and> thrown (store_update (String ''pay_1'') ''1700000000000'' 1700000000003 (String ''USD'')
        (world_of (store_update (String ''pay_1'') ''1700000000000'' 1700000000001
                     (String ''USD'') stored_world))) = None
   \<and> store_update (String ''pay_1'') ''1700000000000'' 1700000000003 (String ''USD'') stored_world
     = Return () (world_of (store_update (String ''pay_1'') ''1700000000000'' 1700000000003
          (String ''USD'')
          (world_of (store_update (String ''pay_1'') ''1700000000000'' 1700000000001
                       (String ''USD'') stored_world))))"
proof -
  let ?u1 = "store_update (String ''pay_1'') ''1700000000000'' 1700000000001 (String ''USD'')
               stored_world"
  let ?u2 = "store_update (String ''pay_1'') ''1700000000000'' 1700000000003 (String ''USD'')
               (world_of ?u1)"
  have t1: "thrown ?u1 = None"
    by (simp add: service_eval demo_eval num_eval scan_eval)
  have t2: "thrown ?u2 = None"
    by (simp add: service_eval demo_eval num_eval scan_eval)
  note r1 = returned_unit [OF t1] and r2 = returned_unit [OF t2]
  from store_update_overwrites [OF r1 r2] r1 t2 show ?thesis by blast
qed

text \<open>
  Claim C7 as the specification words it fails when the clock moves between the two
  applications: the same queued item, processed twice, is stored with the
  \<^verbatim>\<open>processedAt\<close> of the second run.
\<close>

theorem store_update_counterexample:
  "stored_attr
     (world_of (process_record ticking_runtime
        (json_text (queue_message (String ''pay_1'') 1700000000000
           (scenario_payload ''succeeded'' 15000))) stored_world))
     (''pay_1'', 1700000000000) ''processedAt'' = Some (N 1700000000001)
   \<and> stored_attr
     (world_of (process_record ticking_runtime
        (json_text (queue_message (String ''pay_1'') 1700000000000
           (scenario_payload ''succeeded'' 15000)))
        (world_of (process_record ticking_runtime
           (json_text (queue_message (String ''pay_1'') 1700000000000
              (scenario_payload ''succeeded'' 15000))) stored_world))))
     (''pay_1'', 1700000000000) ''processedAt'' = Some (N 1700000000003)"
  by (simp add: ticking_fields handler_eval demo_eval service_eval num_eval scan_eval)

section \<open>A failing item in a batch\<close>

lemma event_processor_append:
  "event_processor rt pre w = Return () w1
   \<Longrightarrow> event_processor rt (pre @ rest) w = event_processor rt rest w1"
  by (induction pre arbitrary: w) (auto split: result.splits)

lemma notification_handler_append:
  "notification_handler rt pre w = Return () w1
   \<Longrightarrow> notification_handler rt (pre @ rest) w = notification_handler rt rest w1"
  by (induction pre arbitrary: w) (auto split: result.splits)

lemma broken_item_throws:
  "process_record demo_runtime (json_text broken_item) w = Throw TypeError w"
  by (simp add: process_record_def processedPayment_def demo_parse broken_props)

lemma broken_notification_throws:
  "notify_record demo_runtime (json_text broken_notification) w = Throw TypeError w"
  by (simp add: notify_record_def toString_method_def the_prop_def demo_parse broken_props)

text \<open>
  Claim C3, as the code has it. Neither handler returns an outcome per item. When the
  items before a failing one have been processed and that one throws, the handler logs
  the error and rethrows: the items after it are not processed, the invocation fails as
  a whole, and the queue delivers the whole batch again, the items that had been
  processed included.
\<close>

theorem failing_item_fails_whole_batch:
  "(event_processor rt pre w = Return () w1 \<and> process_record rt bad w1 = Throw e w2
      \<longrightarrow> event_processor rt (pre @ bad # post) w
            = Throw e (console_write ERROR ''Error processing payment:'' w2)
        \<and> redelivered (pre @ bad # post) (event_processor rt (pre @ bad # post) w)
            = pre @ bad # post)
   \<and> (notification_handler rt pre' v = Return () v1 \<and> notify_record rt bad' v1 = Throw e' v2
      \<longrightarrow> notification_handler rt (pre' @ bad' # post') v
            = Throw e' (console_write ERROR ''Error sending notification:'' v2)
        \<and> redelivered (pre' @ bad' # post') (notification_handler rt (pre' @ bad' # post') v)
            = pre' @ bad' # post')"
  by (simp add: event_processor_append notification_handler_append redelivered_def)

theorem failing_item_fails_whole_batch_witness:
  "event_processor demo_runtime
     [json_text (queue_message (String ''pay_1'') 1700000000000 (scenario_payload ''succeeded'' 120))]
     demo_world
   = Return () (world_of (event_processor demo_runtime
       [json_text (queue_message (String ''pay_1'') 1700000000000 (scenario_payload ''succeeded'' 120))]
       demo_world))
   \<and> thrown (process_record demo_runtime (json_text broken_item)
        (world_of (event_processor demo_runtime
          [json_text (queue_message (String ''pay_1'') 1700000000000
             (scenario_payload ''succeeded'' 120))] demo_world))) = Some TypeError
   \<and> redelivered
        [json_text (queue_message (String ''pay_1'') 1700000000000 (scenario_payload ''succeeded'' 120)),
         json_text broken_item,
         json_text (queue_message (String ''pay_1'') 1700000000000 (scenario_payload ''failed'' 50))]
        (event_processor demo_runtime
          [json_text (queue_message (String ''pay_1'') 1700000000000 (scenario_payload ''succeeded'' 120)),
           json_text broken_item,
           json_text (queue_message (String ''pay_1'') 1700000000000 (scenario_payload ''failed'' 50))]
          demo_world)
      = [json_text (queue_message (String ''pay_1'') 1700000000000 (scenario_payload ''succeeded'' 120)),
         json_text broken_item,
         json_text (queue_message (String ''pay_1'') 1700000000000 (scenario_payload ''failed'' 50))]
   \<and> notification_handler demo_runtime [json_text (as_object (scenario_event ''failed'' 50))]
        stored_world
      = Return () (world_of (notification_handler demo_runtime
          [json_text (as_object (scenario_event ''failed'' 50))] stored_world))
   \<and> thrown (notify_record demo_runtime (json_text broken_notification)
        (world_of (notification_handler demo_runtime
          [json_text (as_object (scenario_event ''failed'' 50))] stored_world))) = Some TypeError
   \<and> redelivered
        [json_text (as_object (scenario_event ''failed'' 50)), json_text broken_notification]
        (notification_handler demo_runtime
          [json_text (as_object (scenario_event ''failed'' 50)), json_text broken_notification]
          stored_world)
      = [json_text (as_object (scenario_event ''failed'' 50)), json_text broken_notification]"
proof -
  let ?good = "json_text (queue_message (String ''pay_1'') 1700000000000
                 (scenario_payload ''succeeded'' 120))"
  let ?late = "json_text (queue_message (String ''pay_1'') 1700000000000
                 (scenario_payload ''failed'' 50))"
  let ?note = "json_text (as_object (scenario_event ''failed'' 50))"
  let ?w1 = "world_of (event_processor demo_runtime [?good] demo_world)"
  let ?v1 = "world_of (notification_handler demo_runtime [?note] stored_world)"
  have "thrown (event_processor demo_runtime [?good] demo_world) = None"
    by (simp add: handler_eval demo_eval service_eval num_eval scan_eval)
  then have pre: "event_processor demo_runtime [?good] demo_world = Return () ?w1"
    by (rule returned_unit)
  have bad: "process_record demo_runtime (json_text broken_item) ?w1 = Throw TypeError ?w1"
    by (rule broken_item_throws)
  have "thrown (notification_handler demo_runtime [?note] stored_world) = None"
    by (simp add: handler_eval demo_eval service_eval num_eval scan_eval)
  then have pre': "notification_handler demo_runtime [?note] stored_world = Return () ?v1"
    by (rule returned_unit)
  have bad': "notify_record demo_runtime (json_text broken_notification) ?v1
              = Throw TypeError ?v1"
    by (rule broken_notification_throws)
  note batch =
    failing_item_fails_whole_batch
      [of demo_runtime "[?good]" demo_world ?w1 "json_text broken_item" TypeError ?w1 "[?late]"
          "[?note]" stored_world ?v1 "json_text broken_notification" TypeError ?v1 "[]",
       unfolded append_Cons append_Nil]
  from batch pre bad have again:
    "redelivered [?good, json_text broken_item, ?late]
       (event_processor demo_runtime [?good, json_text broken_item, ?late] demo_world)
     = [?good, json_text broken_item, ?late]"
    by blast
  from batch pre' bad' have again':
    "redelivered [?note, json_text broken_notification]
       (notification_handler demo_runtime [?note, json_text broken_notification] stored_world)
     = [?note, json_text broken_notification]"
    by blast
  have thrown: "thrown (process_record demo_runtime (json_text broken_item) ?w1) = Some TypeError"
    "thrown (notify_record demo_runtime (json_text broken_notification) ?v1) = Some TypeError"
    unfolding broken_item_throws broken_notification_throws by (simp_all add: thrown_def)
  from pre thrown(1) again pre' thrown(2) again' show ?thesis
    by (intro conjI)
qed

text \<open>
  Claim C3 as the specification words it fails on a batch of a good item followed by one
  without a payload: the good item is processed, its record in the table is marked
  \<^verbatim>\<open>processed\<close>, and it is delivered again together with the failing one.
\<close>

theorem partial_batch_counterexample:
  "thrown (process_record demo_runtime
      (json_text (queue_message (String ''pay_1'') 1700000000000 (scenario_payload ''succeeded'' 120)))
      demo_world) = None
   \<and> stored_attr
       (world_of (event_processor demo_runtime
          [json_text (queue_message (String ''pay_1'') 1700000000000
             (scenario_payload ''succeeded'' 120)),
           json_text broken_item] demo_world))
       (''pay_1'', 1700000000000) ''status'' = Some (S ''processed'')
   \<and> thrown (event_processor demo_runtime
        [json_text (queue_message (String ''pay_1'') 1700000000000 (scenario_payload ''succeeded'' 120)),
         json_text broken_item] demo_world) = Some TypeError
   \<and> redelivered
        [json_text (queue_message (String ''pay_1'') 1700000000000 (scenario_payload ''succeeded'' 120)),
         json_text broken_item]
        (event_processor demo_runtime
          [json_text (queue_message (String ''pay_1'') 1700000000000 (scenario_payload ''succeeded'' 120)),
           json_text broken_item] demo_world)
      = [json_text (queue_message (String ''pay_1'') 1700000000000 (scenario_payload ''succeeded'' 120)),
         json_text broken_item]"
  by (simp add: handler_eval demo_eval service_eval num_eval scan_eval)

section \<open>The notifier\<close>

lemma key_of_valid:
  assumes "key_of [(''paymentId'', a), (''timestamp'', b)] = Some k"
  shows "valid_attrs [(''paymentId'', a), (''timestamp'', b)]"
  using assms
  by (cases a; cases b) (auto simp: key_of_def valid_attrs_def split: attr.splits)

lemma GetItem_Return:
  assumes "GetItem key w = Return r w'"
  shows "w' = w \<and> (\<exists>k. key_of key = Some k \<and> r = payment_table w k)"
  using assms by (auto simp: GetItem_def split: if_splits option.splits)

lemma Publish_Return:
  assumes "Publish subject message w = Return () w'"
  shows "w' = w\<lparr>alert_topic := alert_topic w @ [(subject, message)]\<rparr>"
  using assms by (auto simp: Publish_def split: if_splits)

text \<open>What a notification went through when its processing returned.\<close>

lemma notify_record_Return:
  assumes "notify_record rt msg w = Return () w'"
  shows "\<exists>payment pid tss k.
           JSON_parse rt msg = Some payment
         \<and> get_prop payment ''paymentId'' = Inr pid
         \<and> toString_method (the_prop payment ''timestamp'') = Inr tss
         \<and> key_of [(''paymentId'', attr_S pid), (''timestamp'', attr_N tss)] = Some k
         \<and> (case payment_table w k of
               None \<Rightarrow>
                 w' = console_write WARN (''Payment '' @ to_string pid @ '' not found in DynamoDB'') w
             | Some it \<Rightarrow>
                 if greater_than (parseFloat rt (or_else (the_prop payment ''amount'') (Number (Dec 0 0))))
                      10000
                    \<or> or_else (the_prop payment ''status'') (String ''unknown'') = String ''failed''
                 then \<exists>t. Date_time rt (or_else (the_prop payment ''processedAt'')
                                                 (the_prop payment ''timestamp'')) = Some t
                        \<and> alert_topic w' = alert_topic w @
                            [(alert_subject (or_else (the_prop payment ''status'') (String ''unknown''))
                                (parseFloat rt (or_else (the_prop payment ''amount'') (Number (Dec 0 0)))),
                              alert_message rt pid
                                (or_else (the_prop payment ''provider'') (String ''unknown''))
                                (parseFloat rt (or_else (the_prop payment ''amount'') (Number (Dec 0 0))))
                                (or_else (the_prop payment ''currency'') (String ''USD''))
                                (or_else (the_prop payment ''status'') (String ''unknown''))
                                (toISOString rt t))]
                 else w' = w)"
proof -
  from assms obtain payment pid tss where
    parse: "JSON_parse rt msg = Some payment" and
    pid: "get_prop payment ''paymentId'' = Inr pid" and
    tss: "toString_method (the_prop payment ''timestamp'') = Inr tss"
    by (auto simp: notify_record_def split: option.splits sum.splits)
  let ?key = "[(''paymentId'', attr_S pid), (''timestamp'', attr_N tss)]"
  from assms parse pid tss obtain r w1 where get: "GetItem ?key w = Return r w1"
    by (auto simp: notify_record_def split: result.splits)
  from GetItem_Return [OF get] obtain k where
    w1: "w1 = w" and k: "key_of ?key = Some k" and r: "r = payment_table w k"
    by blast
  have "case payment_table w k of
          None \<Rightarrow>
            w' = console_write WARN (''Payment '' @ to_string pid @ '' not found in DynamoDB'') w
        | Some it \<Rightarrow>
            if greater_than (parseFloat rt (or_else (the_prop payment ''amount'') (Number (Dec 0 0))))
                 10000
               \<or> or_else (the_prop payment ''status'') (String ''unknown'') = String ''failed''
            then \<exists>t. Date_time rt (or_else (the_prop payment ''processedAt'')
                                            (the_prop payment ''timestamp'')) = Some t
                   \<and> alert_topic w' = alert_topic w @
                       [(alert_subject (or_else (the_prop payment ''status'') (String ''unknown''))
                           (parseFloat rt (or_else (the_prop payment ''amount'') (Number (Dec 0 0)))),
                         alert_message rt pid
                           (or_else (the_prop payment ''provider'') (String ''unknown''))
                           (parseFloat rt (or_else (the_prop payment ''amount'') (Number (Dec 0 0))))
                           (or_else (the_prop payment ''currency'') (String ''USD''))
                           (or_else (the_prop payment ''status'') (String ''unknown''))
                           (toISOString rt t))]
            else w' = w"
    using assms parse pid tss get w1 r
    by (auto simp: notify_record_def Let_def console_write_def
             split: option.splits result.splits if_splits dest!: Publish_Return)
  with parse pid tss k show ?thesis by blast
qed

lemma redelivered_thrown: "redelivered batch r = (if thrown r = None then [] else batch)"
  by (cases r) (simp_all add: redelivered_def thrown_def)

text \<open>
  Claim C8, as the code has it. When the message has a payment id and a timestamp that
  make a key of the table, the table can be read and holds no item under that key, the
  notifier logs the warning and skips the message: no alert is published and nothing is
  thrown for it, and the handler goes on with the messages after it. Whether the message
  is delivered again is then decided by those: it is not when they are all handled, and
  it is, with the whole batch, when one of them throws. (The messages before it in the
  batch have been handled, or the handler would not have reached it.)
\<close>

theorem missing_record_is_skipped:
  assumes parse: "JSON_parse rt msg = Some payment"
      and pid: "get_prop payment ''paymentId'' = Inr pid"
      and tss: "toString_method (the_prop payment ''timestamp'') = Inr tss"
      and key: "key_of [(''paymentId'', attr_S pid), (''timestamp'', attr_N tss)] = Some k"
      and up: "DynamoDB \<notin> unavailable w"
      and absent: "payment_table w k = None"
      and pre: "notification_handler rt pre v = Return () w"
  shows "notify_record rt msg w
           = Return () (console_write WARN
                          (''Payment '' @ to_string pid @ '' not found in DynamoDB'') w)
       \<and> alert_topic (world_of (notify_record rt msg w)) = alert_topic w
       \<and> thrown (notify_record rt msg w) = None
       \<and> notification_handler rt (pre @ msg # post) v
           = notification_handler rt post
               (console_write WARN (''Payment '' @ to_string pid @ '' not found in DynamoDB'') w)
       \<and> redelivered (pre @ msg # post) (notification_handler rt (pre @ msg # post) v)
           = (if thrown (notification_handler rt post
                           (console_write WARN
                              (''Payment '' @ to_string pid @ '' not found in DynamoDB'') w)) = None
              then [] else pre @ msg # post)"
proof -
  let ?w = "console_write WARN (''Payment '' @ to_string pid @ '' not found in DynamoDB'') w"
  have "GetItem [(''paymentId'', attr_S pid), (''timestamp'', attr_N tss)] w = Return None w"
    using key_of_valid [OF key] key up absent by (simp add: GetItem_def)
  then have skip: "notify_record rt msg w = Return () ?w"
    using parse pid tss by (simp add: notify_record_def)
  have "notification_handler rt (pre @ msg # post) v = notification_handler rt (msg # post) w"
    by (rule notification_handler_append [OF pre])
  then have batch: "notification_handler rt (pre @ msg # post) v = notification_handler rt post ?w"
    by (simp add: skip)
  have single: "alert_topic (world_of (notify_record rt msg w)) = alert_topic w"
    "thrown (notify_record rt msg w) = None"
    by (simp_all add: skip world_of_def thrown_def console_write_frame)
  from skip single batch show ?thesis
    by (simp add: redelivered_thrown)
qed

theorem missing_record_is_skipped_witness:
  "JSON_parse demo_runtime (json_text (as_object (scenario_event ''failed'' 50)))
     = Some (as_object (scenario_event ''failed'' 50))
   \<and> key_of [(''paymentId'', attr_S (String ''pay_1'')), (''timestamp'', attr_N ''1700000000000'')]
     = Some (''pay_1'', 1700000000000)
   \<and> payment_table demo_world (''pay_1'', 1700000000000) = None
   \<and> notification_handler demo_runtime [] demo_world = Return () demo_world
   \<and> notify_record demo_runtime (json_text (as_object (scenario_event ''failed'' 50))) demo_world
     = Return () (console_write WARN ''Payment pay_1 not found in DynamoDB'' demo_world)
   \<and> alert_topic (world_of (notify_record demo_runtime
        (json_text (as_object (scenario_event ''failed'' 50))) demo_world)) = []
   \<and> redelivered
        [json_text (as_object (scenario_event ''failed'' 50)),
         json_text (as_object (scenario_event ''succeeded'' 15000))]
        (notification_handler demo_runtime
           [json_text (as_object (scenario_event ''failed'' 50)),
            json_text (as_object (scenario_event ''succeeded'' 15000))]
           demo_world) = []"
proof -
  let ?note = "json_text (as_object (scenario_event ''failed'' 50))"
  let ?next = "json_text (as_object (scenario_event ''succeeded'' 15000))"
  let ?w = "console_write WARN ''Payment pay_1 not found in DynamoDB'' demo_world"
  have parse: "JSON_parse demo_runtime ?note = Some (as_object (scenario_event ''failed'' 50))"
    by (rule demo_parse)
  have pid: "get_prop (as_object (scenario_event ''failed'' 50)) ''paymentId'' = Inr (String ''pay_1'')"
    by (simp add: as_object_props scenario_event_fields)
  have tss: "toString_method (the_prop (as_object (scenario_event ''failed'' 50)) ''timestamp'')
             = Inr ''1700000000000''"
    by (simp add: the_prop_def as_object_props scenario_event_fields toString_method_def num_eval)
  have key: "key_of [(''paymentId'', attr_S (String ''pay_1'')),
                     (''timestamp'', attr_N ''1700000000000'')] = Some (''pay_1'', 1700000000000)"
    by (simp add: service_eval scan_eval num_eval)
  have up: "DynamoDB \<notin> unavailable demo_world"
    by (simp add: demo_world_def)
  have absent: "payment_table demo_world (''pay_1'', 1700000000000) = None"
    by (simp add: demo_world_def)
  have pre: "notification_handler demo_runtime [] demo_world = Return () demo_world"
    by simp
  have topic: "alert_topic demo_world = []"
    by (simp add: demo_world_def)
  have rest: "thrown (notification_handler demo_runtime [?next] ?w) = None"
    by (simp add: handler_eval demo_eval service_eval num_eval scan_eval)
  note skipped =
    missing_record_is_skipped [OF parse pid tss key up absent pre, of "[?next]",
      unfolded to_string.simps append_Cons append_Nil]
  from skipped have single:
    "notify_record demo_runtime ?note demo_world = Return () ?w"
    "alert_topic (world_of (notify_record demo_runtime ?note demo_world)) = alert_topic demo_world"
    by blast+
  from skipped have
    "redelivered [?note, ?next] (notification_handler demo_runtime [?note, ?next] demo_world)
     = (if thrown (notification_handler demo_runtime [?next] ?w) = None then []
        else [?note, ?next])"
    by blast
  then have again:
    "redelivered [?note, ?next] (notification_handler demo_runtime [?note, ?next] demo_world) = []"
    by (simp only: rest simp_thms if_True)
  from parse key absent pre single again topic show ?thesis
    by (simp only: simp_thms)
qed

text \<open>
  Claim C8 as the specification words it fails on a batch of a notification whose key is
  absent from the table followed by one without a timestamp: the first is skipped with
  the warning, without an alert and without an error, the second throws a TypeError, and
  the queue delivers both again, the skipped one included.
\<close>

theorem skipped_item_counterexample:
  "payment_table demo_world (''pay_1'', 1700000000000) = None
   \<and> notify_record demo_runtime (json_text (as_object (scenario_event ''failed'' 50))) demo_world
     = Return () (console_write WARN ''Payment pay_1 not found in DynamoDB'' demo_world)
   \<and> alert_topic (console_write WARN ''Payment pay_1 not found in DynamoDB'' demo_world) = []
   \<and> thrown (notification_handler demo_runtime
        [json_text (as_object (scenario_event ''failed'' 50)), json_text broken_notification]
        demo_world) = Some TypeError
   \<and> redelivered
        [json_text (as_object (scenario_event ''failed'' 50)), json_text broken_notification]
        (notification_handler demo_runtime
           [json_text (as_object (scenario_event ''failed'' 50)), json_text broken_notification]
           demo_world)
      = [json_text (as_object (scenario_event ''failed'' 50)), json_text broken_notification]"
  by (simp add: handler_eval demo_eval service_eval num_eval scan_eval)

text \<open>
  Claim C5, as the code has it. Every alert the notifier publishes is the pair of the
  subject and the message the handler composes from the payment id, the provider, the
  amount, the currency, the status and the date of the notification. The subject carries
  the amount as JavaScript prints a number, without fixed decimals: \<^verbatim>\<open>$50\<close> for a failed
  payment of 50 and \<^verbatim>\<open>$15000\<close> for a payment of 15000.
\<close>

theorem alert_subject_plain_amount:
  assumes "notify_record rt msg w = Return () w'" and "alert_topic w' \<noteq> alert_topic w"
  shows "(\<exists>payment pid t st am.
            JSON_parse rt msg = Some payment
          \<and> get_prop payment ''paymentId'' = Inr pid
          \<and> Date_time rt (or_else (the_prop payment ''processedAt'')
                                   (the_prop payment ''timestamp'')) = Some t
          \<and> st = or_else (the_prop payment ''status'') (String ''unknown'')
          \<and> am = parseFloat rt (or_else (the_prop payment ''amount'') (Number (Dec 0 0)))
          \<and> alert_topic w' = alert_topic w @
               [(if st = String ''failed''
                 then ''URGENT: Failed Payment Alert - $'' @ num_to_string am
                 else ''High-Value Payment Alert: $'' @ num_to_string am,
                 alert_message rt pid
                   (or_else (the_prop payment ''provider'') (String ''unknown'')) am
                   (or_else (the_prop payment ''currency'') (String ''USD'')) st
                   (toISOString rt t))])
       \<and> alert_subject st' am'
           = (if st' = String ''failed''
              then ''URGENT: Failed Payment Alert - $'' @ num_to_string am'
              else ''High-Value Payment Alert: $'' @ num_to_string am')
       \<and> alert_subject (String ''failed'') (parseFloat rt (Number (Dec 50 0)))
           = ''URGENT: Failed Payment Alert - $50''
       \<and> alert_subject (String ''succeeded'') (parseFloat rt (Number (Dec 15000 0)))
           = ''High-Value Payment Alert: $15000''"
proof -
  from notify_record_Return [OF assms(1)] obtain payment pid k where
    parse: "JSON_parse rt msg = Some payment" and
    pid: "get_prop payment ''paymentId'' = Inr pid" and
    rest: "case payment_table w k of
             None \<Rightarrow>
               w' = console_write WARN (''Payment '' @ to_string pid @ '' not found in DynamoDB'') w
           | Some it \<Rightarrow>
               if greater_than (parseFloat rt (or_else (the_prop payment ''amount'') (Number (Dec 0 0))))
                    10000
                  \<or> or_else (the_prop payment ''status'') (String ''unknown'') = String ''failed''
               then \<exists>t. Date_time rt (or_else (the_prop payment ''processedAt'')
                                               (the_prop payment ''timestamp'')) = Some t
                      \<and> alert_topic w' = alert_topic w @
                          [(alert_subject (or_else (the_prop payment ''status'') (String ''unknown''))
                              (parseFloat rt (or_else (the_prop payment ''amount'') (Number (Dec 0 0)))),
                            alert_message rt pid
                              (or_else (the_prop payment ''provider'') (String ''unknown''))
                              (parseFloat rt (or_else (the_prop payment ''amount'') (Number (Dec 0 0))))
                              (or_else (the_prop payment ''currency'') (String ''USD''))
                              (or_else (the_prop payment ''status'') (String ''unknown''))
                              (toISOString rt t))]
               else w' = w"
    by blast
  define st where "st = or_else (the_prop payment ''status'') (String ''unknown'')"
  define am where "am = parseFloat rt (or_else (the_prop payment ''amount'') (Number (Dec 0 0)))"
  from rest assms(2) obtain t where
    date: "Date_time rt (or_else (the_prop payment ''processedAt'')
                                 (the_prop payment ''timestamp'')) = Some t" and
    topic: "alert_topic w' = alert_topic w @
              [(alert_subject st am,
                alert_message rt pid
                  (or_else (the_prop payment ''provider'') (String ''unknown'')) am
                  (or_else (the_prop payment ''currency'') (String ''USD'')) st
                  (toISOString rt t))]"
    unfolding st_def am_def
    by (auto simp: console_write_frame split: option.splits if_splits)
  from topic have topic':
    "alert_topic w' = alert_topic w @
       [(if st = String ''failed''
         then ''URGENT: Failed Payment Alert - $'' @ num_to_string am
         else ''High-Value Payment Alert: $'' @ num_to_string am,
         alert_message rt pid
           (or_else (the_prop payment ''provider'') (String ''unknown'')) am
           (or_else (the_prop payment ''currency'') (String ''USD'')) st
           (toISOString rt t))]"
    by (simp only: alert_subject_def)
  from parse pid date st_def am_def topic' have published:
    "\<exists>payment pid t st am.
       JSON_parse rt msg = Some payment
     \<and> get_prop payment ''paymentId'' = Inr pid
     \<and> Date_time rt (or_else (the_prop payment ''processedAt'')
                              (the_prop payment ''timestamp'')) = Some t
     \<and> st = or_else (the_prop payment ''status'') (String ''unknown'')
     \<and> am = parseFloat rt (or_else (the_prop payment ''amount'') (Number (Dec 0 0)))
     \<and> alert_topic w' = alert_topic w @
          [(if st = String ''failed''
            then ''URGENT: Failed Payment Alert - $'' @ num_to_string am
            else ''High-Value Payment Alert: $'' @ num_to_string am,
            alert_message rt pid
              (or_else (the_prop payment ''provider'') (String ''unknown'')) am
              (or_else (the_prop payment ''currency'') (String ''USD'')) st
              (toISOString rt t))]"
    by blast
  have subjects:
    "alert_subject (String ''failed'') (parseFloat rt (Number (Dec 50 0)))
       = ''URGENT: Failed Payment Alert - $50''"
    "alert_subject (String ''succeeded'') (parseFloat rt (Number (Dec 15000 0)))
       = ''High-Value Payment Alert: $15000''"
    by (simp_all add: alert_subject_def parseFloat_Number num_eval)
  have general:
    "alert_subject st' am'
       = (if st' = String ''failed''
          then ''URGENT: Failed Payment Alert - $'' @ num_to_string am'
          else ''High-Value Payment Alert: $'' @ num_to_string am')"
    by (simp add: alert_subject_def)
  from published general subjects show ?thesis
    by (intro conjI)
qed

theorem alert_subject_plain_amount_witness:
  "notify_record demo_runtime (json_text (as_object (scenario_event ''failed'' 50))) stored_world
     = Return () (world_of (notify_record demo_runtime
         (json_text (as_object (scenario_event ''failed'' 50))) stored_world))
   \<and> map fst (alert_topic (world_of (notify_record demo_runtime
        (json_text (as_object (scenario_event ''failed'' 50))) stored_world)))
     = [''URGENT: Failed Payment Alert - $50'']
   \<and> alert_topic stored_world = []"
proof -
  let ?note = "json_text (as_object (scenario_event ''failed'' 50))"
  let ?w' = "world_of (notify_record demo_runtime ?note stored_world)"
  have "thrown (notify_record demo_runtime ?note stored_world) = None"
    by (simp add: handler_eval demo_eval service_eval num_eval scan_eval)
  then have r: "notify_record demo_runtime ?note stored_world = Return () ?w'"
    by (rule returned_unit)
  have before: "alert_topic stored_world = []"
    by (simp add: stored_world_def demo_world_def)
  have after: "map fst (alert_topic ?w') = [''URGENT: Failed Payment Alert - $50'']"
    by (simp add: handler_eval demo_eval service_eval num_eval scan_eval)
  then have changed: "alert_topic ?w' \<noteq> alert_topic stored_world"
    unfolding before by auto
  from alert_subject_plain_amount [OF r changed] r after before show ?thesis
    by blast
qed

text \<open>
  Claim C5 as the specification words it fails on the two scenarios it names: the
  subjects end in \<^verbatim>\<open>$50\<close> and \<^verbatim>\<open>$15000\<close>, not in \<^verbatim>\<open>$50.00\<close> and \<^verbatim>\<open>$15000.00\<close>.
\<close>

theorem alert_subject_counterexample:
  "map fst (alert_topic (world_of (notify_record demo_runtime
      (json_text (as_object (scenario_event ''failed'' 50))) stored_world)))
     = [''URGENT: Failed Payment Alert - $50'']
   \<and> map fst (alert_topic (world_of (notify_record demo_runtime
      (json_text (as_object (scenario_event ''failed'' 50))) stored_world)))
     \<noteq> [''URGENT: Failed Payment Alert - $50.00'']
   \<and> map fst (alert_topic (world_of (notify_record demo_runtime
      (json_text (as_object (scenario_event ''succeeded'' 15000))) stored_world)))
     = [''High-Value Payment Alert: $15000'']
   \<and> map fst (alert_topic (world_of (notify_record demo_runtime
      (json_text (as_object (scenario_event ''succeeded'' 15000))) stored_world)))
     \<noteq> [''High-Value Payment Alert: $15000.00'']"
  by (simp add: handler_eval demo_eval service_eval num_eval scan_eval)

section \<open>The receiver\<close>

text \<open>
  Claim C9. A request with the path \<^verbatim>\<open>/health\<close> or the method \<^verbatim>\<open>GET\<close> is answered with
  status 200 and the body \<^verbatim>\<open>{status: "healthy", timestamp}\<close>, the timestamp being the
  clock's reading in ISO 8601. The only change to the world is that the clock has been
  read once: the table, the bucket and both queues are as before.
\<close>

theorem health_check_no_side_effects:
  assumes "path ev = ''/health'' \<or> httpMethod ev = ''GET''"
  shows "webhook_receiver rt ev w =
           (\<lparr>statusCode = 200,
             result_body = JSON_stringify rt
               (Object [(''status'', String ''healthy''),
                        (''timestamp'', String (toISOString rt (clock rt (ticks w))))])\<rparr>,
            w\<lparr>ticks := Suc (ticks w)\<rparr>)
         \<and> payment_table (snd (webhook_receiver rt ev w)) = payment_table w
         \<and> archive_bucket (snd (webhook_receiver rt ev w)) = archive_bucket w
         \<and> processing_queue (snd (webhook_receiver rt ev w)) = processing_queue w
         \<and> notification_queue (snd (webhook_receiver rt ev w)) = notification_queue w"
  using assms by (simp add: webhook_receiver_def receive_def Date_now_def)

theorem health_check_no_side_effects_witness:
  "statusCode (fst (webhook_receiver demo_runtime
      \<lparr>path = ''/health'', httpMethod = ''POST'', body = None, headers = Map.empty\<rparr>
      demo_world)) = 200
   \<and> payment_table (snd (webhook_receiver demo_runtime
        \<lparr>path = ''/health'', httpMethod = ''POST'', body = None, headers = Map.empty\<rparr>
        demo_world)) = Map.empty
   \<and> processing_queue (snd (webhook_receiver demo_runtime
        \<lparr>path = ''/health'', httpMethod = ''POST'', body = None, headers = Map.empty\<rparr>
        demo_world)) = []"
  using health_check_no_side_effects
          [of "\<lparr>path = ''/health'', httpMethod = ''POST'', body = None, headers = Map.empty\<rparr>"
              demo_runtime demo_world]
  by (simp add: demo_world_def)

text \<open>
  The two ways a request body is refused. A missing or empty body is answered with
  status 400 and leaves the world as it was. A body that \<^verbatim>\<open>JSON.parse\<close> rejects makes it
  throw inside the \<^verbatim>\<open>try\<close>; the \<^verbatim>\<open>catch\<close> answers with status 500, and the only change
  to the world is the line on the console.
\<close>

lemma missing_body_400:
  assumes "\<not> (path ev = ''/health'' \<or> httpMethod ev = ''GET'')"
      and "body ev = None \<or> body ev = Some []"
  shows "webhook_receiver rt ev w =
           (\<lparr>statusCode = 400,
             result_body = JSON_stringify rt (Object [(''error'', String ''Missing request body'')])\<rparr>,
            w)"
  using assms by (auto simp: webhook_receiver_def receive_def)

lemma unparseable_body_500:
  assumes "\<not> (path ev = ''/health'' \<or> httpMethod ev = ''GET'')"
      and "body ev = Some b" and "b \<noteq> []" and "JSON_parse rt b = None"
  shows "webhook_receiver rt ev w =
           (\<lparr>statusCode = 500,
             result_body = JSON_stringify rt
               (Object [(''error'', String ''Internal server error''),
                        (''message'', String (error_message rt SyntaxError))])\<rparr>,
            console_write ERROR ''Error processing webhook:'' w)"
  using assms by (simp add: webhook_receiver_def receive_def)

text \<open>
  Claim C4 at the request \<^verbatim>\<open>POST /webhook\<close> with the body \<^verbatim>\<open>{not json\<close>: the answer has
  status 500, not 400. Nothing is stored, archived or queued.
\<close>

theorem unparseable_body_is_internal_error:
  "fst (webhook_receiver demo_runtime
     \<lparr>path = ''/webhook'', httpMethod = ''POST'', body = Some ''{not json'', headers = Map.empty\<rparr>
     demo_world)
   = \<lparr>statusCode = 500,
      result_body = json_text (Object [(''error'', String ''Internal server error''),
                                       (''message'', String ''error'')])\<rparr>
   \<and> snd (webhook_receiver demo_runtime
     \<lparr>path = ''/webhook'', httpMethod = ''POST'', body = Some ''{not json'', headers = Map.empty\<rparr>
     demo_world)
   = console_write ERROR ''Error processing webhook:'' demo_world"
  by (simp add: unparseable_body_500 demo_parse demo_fields)

lemma PutItem_Return:
  assumes "PutItem attrs w = Return () w'"
  shows "\<exists>k. key_of attrs = Some k \<and> valid_attrs attrs
           \<and> w' = w\<lparr>payment_table := (payment_table w)(k \<mapsto> item_of attrs)\<rparr>"
  using assms by (auto simp: PutItem_def split: if_splits option.splits)

lemma PutObject_Return:
  assumes "PutObject key text w = Return () w'"
  shows "w' = w\<lparr>archive_bucket := (archive_bucket w)(key \<mapsto> text)\<rparr>"
  using assms by (auto simp: PutObject_def split: if_splits)

lemma SendMessage_processing_Return:
  assumes "SendMessage ProcessingQueue m w = Return () w'"
  shows "w' = w\<lparr>processing_queue := processing_queue w @ [m]\<rparr>"
  using assms by (auto simp: SendMessage_def split: if_splits)

lemma item_of_Cons:
  "item_of ((n, a) # r) = (case a of None \<Rightarrow> item_of r | Some x \<Rightarrow> (item_of r)(n \<mapsto> x))"
  by (cases a) simp_all

lemma received_item_key:
  assumes "key_of (received_item rt pid ts payload) = Some k"
  shows "\<exists>p t. pid = String p \<and> p \<noteq> [] \<and> attr_N (num_to_string (Dec ts 0)) = Some (N t)
           \<and> k = (p, t)
           \<and> item_of (received_item rt pid ts payload) ''paymentId'' = Some (S p)
           \<and> item_of (received_item rt pid ts payload) ''timestamp'' = Some (N t)"
proof -
  have lookup:
    "item_of (received_item rt pid ts payload) ''paymentId'' = attr_S pid"
    "item_of (received_item rt pid ts payload) ''timestamp'' = attr_N (num_to_string (Dec ts 0))"
    by (simp_all add: received_item_def item_of_Cons split: option.splits)
  have "attr_N s = Some a \<Longrightarrow> \<exists>t. a = N t" for s a
    by (auto simp: attr_N_def split: option.splits prod.splits jsnum.splits list.splits)
  moreover have "attr_S v = Some a \<Longrightarrow> \<exists>p. a = S p \<and> v = String p" for v a
    by (auto simp: attr_S_def split: jsval.splits)
  ultimately show ?thesis
    using assms unfolding key_of_def lookup
    by (cases "attr_S pid"; cases "attr_N (num_to_string (Dec ts 0))")
       (fastforce split: attr.splits if_splits)+
qed

text \<open>What an accepted webhook went through.\<close>

lemma receive_200:
  assumes "receive rt ev w = Return r w'" and "statusCode r = 200"
      and "\<not> (path ev = ''/health'' \<or> httpMethod ev = ''GET'')"
  shows "\<exists>b payload given pid w1 w3 w5 w6.
           body ev = Some b \<and> JSON_parse rt b = Some payload
         \<and> get_prop payload ''paymentId'' = Inr given
         \<and> pid = (if truthy given then given else String (randomUUID rt (draws w)))
         \<and> w1 = (if truthy given then w else w\<lparr>draws := Suc (draws w)\<rparr>)
         \<and> PutItem (received_item rt pid (clock rt (ticks w)) payload)
              (w1\<lparr>ticks := Suc (ticks w)\<rparr>) = Return () w3
         \<and> PutObject (archive_key (takeWhile (\<lambda>c. c \<noteq> CHR ''T'')
                                     (toISOString rt (clock rt (ticks w3)))) pid)
              (JSON_stringify_indent2 rt payload) (w3\<lparr>ticks := Suc (ticks w3)\<rparr>)
              = Return () w5
         \<and> SendMessage ProcessingQueue
              (JSON_stringify rt (queue_message pid (clock rt (ticks w)) payload)) w5 = Return () w6
         \<and> w' = console_write LOG (''Webhook received and processed: '' @ to_string pid) w6
         \<and> r = \<lparr>statusCode = 200,
                 result_body = JSON_stringify rt (received_response pid (clock rt (ticks w)))\<rparr>"
  using assms
  unfolding receive_def Let_def Date_now_def crypto_randomUUID_def
  by (auto split: option.split_asm sum.split_asm result.split_asm if_split_asm)

text \<open>
  Claim C10. When a request that is not a health check is answered with status 200,
  one payment id (the payload's, or one fresh UUID) and one reading of the clock are in
  every effect: the item is stored under the key made of that id and the number of that
  timestamp (printed and read back, which gives the timestamp itself for every reading
  of the clock below \<open>10^21\<close>), the archive key ends in that id, and the message on the
  processing queue and the body of the response carry that id and that timestamp.
\<close>

theorem receiver_uses_one_id_and_timestamp:
  assumes ok: "statusCode (fst (webhook_receiver rt ev w)) = 200"
      and post: "\<not> (path ev = ''/health'' \<or> httpMethod ev = ''GET'')"
  shows "\<exists>b payload pid ts t date.
           body ev = Some b \<and> JSON_parse rt b = Some payload
         \<and> String pid = (if truthy (the_prop payload ''paymentId'')
                         then the_prop payload ''paymentId''
                         else String (randomUUID rt (draws w)))
         \<and> ts = clock rt (ticks w)
         \<and> attr_N (num_to_string (Dec ts 0)) = Some (N t)
         \<and> (\<bar>ts\<bar> < 10 ^ 21 \<longrightarrow> t = of_int ts)
         \<and> payment_table (snd (webhook_receiver rt ev w))
             = (payment_table w)((pid, t) \<mapsto> item_of (received_item rt (String pid) ts payload))
         \<and> item_of (received_item rt (String pid) ts payload) ''paymentId'' = Some (S pid)
         \<and> item_of (received_item rt (String pid) ts payload) ''timestamp'' = Some (N t)
         \<and> archive_bucket (snd (webhook_receiver rt ev w))
             = (archive_bucket w)
                 (''webhooks/'' @ date @ ''/'' @ pid @ ''.json'' \<mapsto> JSON_stringify_indent2 rt payload)
         \<and> processing_queue (snd (webhook_receiver rt ev w))
             = processing_queue w @
                 [JSON_stringify rt
                    (Object [(''paymentId'', String pid), (''timestamp'', Number (Dec ts 0)),
                             (''payload'', payload)])]
         \<and> result_body (fst (webhook_receiver rt ev w))
             = JSON_stringify rt
                 (Object [(''message'', String ''Webhook received''), (''paymentId'', String pid),
                          (''timestamp'', Number (Dec ts 0))])"
proof -
  from ok obtain r w' where
    ret: "receive rt ev w = Return r w'" and r200: "statusCode r = 200" and
    out: "webhook_receiver rt ev w = (r, w')"
    by (auto simp: webhook_receiver_def split: result.splits)
  let ?ts = "clock rt (ticks w)"
  from receive_200 [OF ret r200 post] obtain b payload given pid w1 w3 w5 w6 where
    body: "body ev = Some b" "JSON_parse rt b = Some payload" and
    given: "get_prop payload ''paymentId'' = Inr given" and
    pid: "pid = (if truthy given then given else String (randomUUID rt (draws w)))" and
    w1: "w1 = (if truthy given then w else w\<lparr>draws := Suc (draws w)\<rparr>)" and
    put: "PutItem (received_item rt pid ?ts payload) (w1\<lparr>ticks := Suc (ticks w)\<rparr>) = Return () w3" and
    archive: "PutObject (archive_key (takeWhile (\<lambda>c. c \<noteq> CHR ''T'')
                                        (toISOString rt (clock rt (ticks w3)))) pid)
                (JSON_stringify_indent2 rt payload) (w3\<lparr>ticks := Suc (ticks w3)\<rparr>)
              = Return () w5" and
    send: "SendMessage ProcessingQueue (JSON_stringify rt (queue_message pid ?ts payload)) w5
           = Return () w6" and
    w': "w' = console_write LOG (''Webhook received and processed: '' @ to_string pid) w6" and
    r: "r = \<lparr>statusCode = 200, result_body = JSON_stringify rt (received_response pid ?ts)\<rparr>"
    by blast
  let ?date = "takeWhile (\<lambda>c. c \<noteq> CHR ''T'') (toISOString rt (clock rt (ticks w3)))"
  from PutItem_Return [OF put] obtain k where
    k: "key_of (received_item rt pid ?ts payload) = Some k" and
    w3: "w3 = w1\<lparr>ticks := Suc (ticks w), payment_table :=
                   (payment_table w1)(k \<mapsto> item_of (received_item rt pid ?ts payload))\<rparr>"
    by auto
  from received_item_key [OF k] obtain p t where
    p: "pid = String p" and t: "attr_N (num_to_string (Dec ?ts 0)) = Some (N t)" and
    kpt: "k = (p, t)" and
    attrs: "item_of (received_item rt pid ?ts payload) ''paymentId'' = Some (S p)"
           "item_of (received_item rt pid ?ts payload) ''timestamp'' = Some (N t)"
    by blast
  have number: "\<bar>?ts\<bar> < 10 ^ 21 \<longrightarrow> t = of_int ?ts"
    using t attr_N_int [of ?ts] by auto
  have the_given: "the_prop payload ''paymentId'' = given"
    using given by (simp add: the_prop_def)
  have w1_frame: "payment_table w1 = payment_table w" "archive_bucket w1 = archive_bucket w"
                 "processing_queue w1 = processing_queue w"
    by (simp_all add: w1)
  have table: "payment_table w' = (payment_table w)((p, t) \<mapsto> item_of (received_item rt pid ?ts payload))"
    unfolding w' PutObject_Return [OF archive] SendMessage_processing_Return [OF send]
    by (simp add: console_write_def w3 w1_frame kpt)
  have bucket: "archive_bucket w' = (archive_bucket w)
                  (''webhooks/'' @ ?date @ ''/'' @ p @ ''.json'' \<mapsto> JSON_stringify_indent2 rt payload)"
    unfolding w' SendMessage_processing_Return [OF send] PutObject_Return [OF archive]
    by (simp add: console_write_def archive_key_def p) (simp add: w3 w1_frame)
  have queue: "processing_queue w' = processing_queue w @
                 [JSON_stringify rt (queue_message pid ?ts payload)]"
    unfolding w' SendMessage_processing_Return [OF send] PutObject_Return [OF archive]
    by (simp add: console_write_def w3 w1_frame)
  from body pid p t number table attrs bucket queue r out the_given show ?thesis
    by (auto simp: queue_message_def received_response_def)
qed

theorem receiver_uses_one_id_and_timestamp_witness:
  "statusCode (fst (webhook_receiver demo_runtime
      \<lparr>path = ''/webhook'', httpMethod = ''POST'',
        body = Some (json_text (scenario_payload ''succeeded'' 15000)), headers = Map.empty\<rparr>
      demo_world)) = 200
   \<and> result_body (fst (webhook_receiver demo_runtime
        \<lparr>path = ''/webhook'', httpMethod = ''POST'',
          body = Some (json_text (scenario_payload ''succeeded'' 15000)), headers = Map.empty\<rparr>
        demo_world))
     = json_text (Object [(''message'', String ''Webhook received''),
                          (''paymentId'', String ''pay_1''),
                          (''timestamp'', Number (Dec 1700000000000 0))])
   \<and> processing_queue (snd (webhook_receiver demo_runtime
        \<lparr>path = ''/webhook'', httpMethod = ''POST'',
          body = Some (json_text (scenario_payload ''succeeded'' 15000)), headers = Map.empty\<rparr>
        demo_world))
     = [json_text (Object [(''paymentId'', String ''pay_1''),
                           (''timestamp'', Number (Dec 1700000000000 0)),
                           (''payload'', scenario_payload ''succeeded'' 15000)])]
   \<and> \<bar>clock demo_runtime (ticks demo_world)\<bar> < 10 ^ 21
   \<and> stored_attr (snd (webhook_receiver demo_runtime
        \<lparr>path = ''/webhook'', httpMethod = ''POST'',
          body = Some (json_text (scenario_payload ''succeeded'' 15000)), headers = Map.empty\<rparr>
        demo_world)) (''pay_1'', 1700000000000) ''status'' = Some (S ''received'')"
proof -
  let ?ev = "\<lparr>path = ''/webhook'', httpMethod = ''POST'',
               body = Some (json_text (scenario_payload ''succeeded'' 15000)),
               headers = Map.empty\<rparr>"
  have ok: "statusCode (fst (webhook_receiver demo_runtime ?ev demo_world)) = 200"
    by (simp add: handler_eval demo_eval service_eval num_eval scan_eval item_of_Cons)
  have post: "\<not> (path ?ev = ''/health'' \<or> httpMethod ?ev = ''GET'')"
    by simp
  have small: "\<bar>clock demo_runtime (ticks demo_world)\<bar> < 10 ^ 21"
    by (simp add: demo_fields)
  have stored: "stored_attr (snd (webhook_receiver demo_runtime ?ev demo_world))
                  (''pay_1'', 1700000000000) ''status'' = Some (S ''received'')"
    by (simp add: handler_eval demo_eval service_eval num_eval scan_eval item_of_Cons)
  from receiver_uses_one_id_and_timestamp [OF ok post] have
    "result_body (fst (webhook_receiver demo_runtime ?ev demo_world))
       = json_text (Object [(''message'', String ''Webhook received''),
                            (''paymentId'', String ''pay_1''),
                            (''timestamp'', Number (Dec 1700000000000 0))])
     \<and> processing_queue (snd (webhook_receiver demo_runtime ?ev demo_world))
       = [json_text (Object [(''paymentId'', String ''pay_1''),
                             (''timestamp'', Number (Dec 1700000000000 0)),
                             (''payload'', scenario_payload ''succeeded'' 15000)])]"
    by (auto simp: demo_parse demo_fields demo_world_def the_prop_def scenario_payload_props)
  with ok small stored show ?thesis
    by blast
qed

section \<open>The routing rules partition the amounts\<close>

lemma rule_matches_high:
  "rule_matches HighValuePaymentRule ''payment.processor'' ''Payment Processed''
     (as_object (p\<lparr>amount := Dec m e\<rparr>)) = (10000 < num_val m e)"
  by (simp add: rule_matches_def HighValuePaymentRule_def field_matches_def as_object_def)

lemma rule_matches_standard:
  "rule_matches StandardPaymentRule ''payment.processor'' ''Payment Processed''
     (as_object (p\<lparr>amount := Dec m e\<rparr>)) = (num_val m e \<le> 10000)"
  by (simp add: rule_matches_def StandardPaymentRule_def field_matches_def as_object_def)

text \<open>
  Claim C6. The event the processor publishes has the source \<^verbatim>\<open>payment.processor\<close>, the
  detail type \<^verbatim>\<open>Payment Processed\<close> and the normalized event as its detail. For every
  finite amount, negative ones included, the high-value rule matches it exactly when the
  amount is above 10000 and the standard rule exactly when it is at most 10000, so one
  and only one of the two matches. The amount 10000 matches the standard rule only, the
  amount 10000.01 the high-value rule only.
\<close>

theorem routing_rules_partition:
  "(rule_matches HighValuePaymentRule ''payment.processor'' ''Payment Processed''
      (as_object (p\<lparr>amount := Dec m e\<rparr>)) = (10000 < num_val m e))
   \<and> (rule_matches StandardPaymentRule ''payment.processor'' ''Payment Processed''
      (as_object (p\<lparr>amount := Dec m e\<rparr>)) = (num_val m e \<le> 10000))
   \<and> (rule_matches HighValuePaymentRule ''payment.processor'' ''Payment Processed''
      (as_object (p\<lparr>amount := Dec m e\<rparr>))
       = (\<not> rule_matches StandardPaymentRule ''payment.processor'' ''Payment Processed''
            (as_object (p\<lparr>amount := Dec m e\<rparr>))))
   \<and> rule_matches StandardPaymentRule ''payment.processor'' ''Payment Processed''
        (as_object (p\<lparr>amount := Dec 10000 0\<rparr>))
   \<and> \<not> rule_matches HighValuePaymentRule ''payment.processor'' ''Payment Processed''
        (as_object (p\<lparr>amount := Dec 10000 0\<rparr>))
   \<and> rule_matches HighValuePaymentRule ''payment.processor'' ''Payment Processed''
        (as_object (p\<lparr>amount := Dec 1000001 (- 2)\<rparr>))
   \<and> \<not> rule_matches StandardPaymentRule ''payment.processor'' ''Payment Processed''
        (as_object (p\<lparr>amount := Dec 1000001 (- 2)\<rparr>))"
proof -
  have boundary: "num_val 10000 0 = 10000" and above: "num_val 1000001 (- 2) = 1000001 / 100"
    by (simp_all add: num_val_def)
  show ?thesis
    unfolding rule_matches_high rule_matches_standard boundary above
    by (simp add: not_le)
qed

end
